theory Spec2Isabelle
  imports Complex_Main "HOL-Library.AList"
begin

section \<open>Values, errors and the Python builtins the engine calls\<close>

text \<open>
  The scoring engine (\<^verbatim>\<open>assessment/engine.py\<close>), the question bank
  (\<^verbatim>\<open>assessment/questions.py\<close>) and the request handlers of \<^verbatim>\<open>main.py\<close> are
  embedded as HOL functions.

  Conventions of the embedding:
  \<^item> a Python \<^verbatim>\<open>str\<close> is a \<^typ>\<open>string\<close> holding its UTF-8 bytes; the German umlauts of the
    source are written as their two bytes (\<open>[CHR 0xC3, CHR 0xB6]\<close> is o-umlaut);
  \<^item> a Python \<^verbatim>\<open>float\<close> (and an \<^verbatim>\<open>int\<close> once it takes part in float arithmetic) is a
    \<^typ>\<open>real\<close>: arithmetic is exact, binary rounding error and the non-finite floats are
    outside the model;
  \<^item> a raised exception is the \<open>Inl\<close> side of a sum;
  \<^item> a dict whose iteration order reaches the output is an association list, any other
    dict is a map.
\<close>

datatype py_value =
    VStr string
  | VInt int
  | VFloat real
  | VBool bool
  | VNone
  | VList "py_value list"
  | VDict "(string \<times> py_value) list"

datatype py_error = KeyError | ValueError | TypeError | AttributeError | OverflowError

text \<open>
  Two builtins are not defined here and are taken as parameters of the engine:
  \<^verbatim>\<open>float(s)\<close> on a \<^verbatim>\<open>str\<close> (\<open>None\<close> stands for its \<^verbatim>\<open>ValueError\<close>) and
  \<^verbatim>\<open>str(v)\<close> on a float, a list or a dict. Every theorem holds for all of their values.
\<close>

record builtins =
  float_of_str :: "string \<Rightarrow> real option"
  repr_of :: "py_value \<Rightarrow> string"

text \<open>\<^verbatim>\<open>float(answer)\<close>: numbers and booleans convert, a string is parsed, anything else is a
  \<^verbatim>\<open>TypeError\<close>. An \<^verbatim>\<open>int\<close> that would round to \<open>2 ^ 1024\<close> or beyond is too large for a
  float and raises \<^verbatim>\<open>OverflowError\<close>.\<close>

definition float_overflow :: int where
  "float_overflow = 2 ^ 1024 - 2 ^ 970"

fun py_float :: "builtins \<Rightarrow> py_value \<Rightarrow> py_error + real" where
  "py_float py (VInt n) = (if \<bar>n\<bar> \<ge> float_overflow then Inl OverflowError else Inr (of_int n))"
| "py_float py (VFloat x) = Inr x"
| "py_float py (VBool b) = Inr (if b then 1 else 0)"
| "py_float py (VStr s) = (case float_of_str py s of None \<Rightarrow> Inl ValueError | Some x \<Rightarrow> Inr x)"
| "py_float py VNone = Inl TypeError"
| "py_float py (VList xs) = Inl TypeError"
| "py_float py (VDict kvs) = Inl TypeError"

definition digit_char :: "nat \<Rightarrow> char" where
  "digit_char d = char_of (48 + d)"

fun str_of_nat :: "nat \<Rightarrow> string" where
  "str_of_nat n = (if n < 10 then [digit_char n] else str_of_nat (n div 10) @
      [digit_char (n mod 10)])"

definition str_of_int :: "int \<Rightarrow> string" where
  "str_of_int i = (if i < 0 then CHR ''-'' # str_of_nat (nat (- i)) else str_of_nat (nat i))"

text \<open>\<^verbatim>\<open>str(answer)\<close>.\<close>

fun py_str :: "builtins \<Rightarrow> py_value \<Rightarrow> string" where
  "py_str py (VStr s) = s"
| "py_str py (VInt n) = str_of_int n"
| "py_str py (VBool b) = (if b then ''True'' else ''False'')"
| "py_str py VNone = ''None''"
| "py_str py v = repr_of py v"

text \<open>\<^verbatim>\<open>str.lower()\<close> on the ASCII letters; bytes of a non-ASCII character are left as they
  are.\<close>

definition lower_char :: "char \<Rightarrow> char" where
  "lower_char c = (let n = (of_char c :: nat) in if 65 \<le> n \<and> n \<le> 90 then char_of (n + 32) else c)"

definition str_lower :: "string \<Rightarrow> string" where
  "str_lower s = map lower_char s"

text \<open>\<^verbatim>\<open>answer.lower()\<close>: only a \<^verbatim>\<open>str\<close> has the method, every other value raises
  \<^verbatim>\<open>AttributeError\<close>.\<close>

fun py_lower :: "py_value \<Rightarrow> py_error + string" where
  "py_lower (VStr s) = Inr (str_lower s)"
| "py_lower v = Inl AttributeError"

text \<open>\<^verbatim>\<open>str.strip()\<close> removes leading and trailing whitespace (the ASCII whitespace of
  \<^verbatim>\<open>str.isspace\<close>: bytes 9 to 13, 28 to 32).\<close>

definition is_space :: "char \<Rightarrow> bool" where
  "is_space c = (let n = (of_char c :: nat) in (9 \<le> n \<and> n \<le> 13) \<or> (28 \<le> n \<and> n \<le> 32))"

definition str_strip :: "string \<Rightarrow> string" where
  "str_strip s = rev (dropWhile is_space (rev (dropWhile is_space s)))"

text \<open>\<^verbatim>\<open>d.get(k, default)\<close> on a dict written as an association list.\<close>

definition dict_get :: "('k \<times> 'v) list \<Rightarrow> 'k \<Rightarrow> 'v \<Rightarrow> 'v" where
  "dict_get d k dflt = (case map_of d k of None \<Rightarrow> dflt | Some v \<Rightarrow> v)"

text \<open>\<^verbatim>\<open>needle in haystack\<close> on strings: the needle occurs as a contiguous block.\<close>

fun str_contains :: "string \<Rightarrow> string \<Rightarrow> bool" where
  "str_contains needle [] = (needle = [])"
| "str_contains needle (c # cs) = (take (length needle) (c # cs) = needle \<or> str_contains needle cs)"

text \<open>\<^verbatim>\<open>round(x, 1)\<close>: to one decimal, a tie going to the even digit.\<close>

definition py_round1 :: "real \<Rightarrow> real" where
  "py_round1 x =
     (let y = x * 10; f = \<lfloor>y\<rfloor>; d = y - of_int f in
        if d < 1 / 2 then of_int f / 10
        else if 1 / 2 < d then of_int (f + 1) / 10
        else if even f then of_int f / 10
        else of_int (f + 1) / 10)"

section \<open>The question bank (\<^verbatim>\<open>assessment/questions.py\<close>)\<close>

record question =
  q_id :: string
  q_dimension :: string
  q_type :: string
  q_text :: string
  q_options :: "(py_value \<times> string) list"
  q_scoring :: "(string \<times> real) list option"

text \<open>A question dict: \<open>q_options\<close> pairs each option's value with its label, \<open>q_scoring\<close> is
  \<open>None\<close> when the dict has no \<^verbatim>\<open>"scoring"\<close> key.\<close>

text \<open>The five dimension names of \<^verbatim>\<open>DIMENSIONS\<close>; the questions and the engine's tables
  repeat them as string literals.\<close>

definition Unternehmerische_Persoenlichkeit :: string where
  "Unternehmerische_Persoenlichkeit = ''Unternehmerische Pers'' @ [CHR 0xC3, CHR 0xB6] @
      ''nlichkeit''"

definition Fachkompetenz :: string where
  "Fachkompetenz = ''Fachkompetenz''"

definition Marktverstaendnis :: string where
  "Marktverstaendnis = ''Marktverst'' @ [CHR 0xC3, CHR 0xA4] @ ''ndnis''"

definition Finanzplanung :: string where
  "Finanzplanung = ''Finanzplanung''"

definition Umsetzungsreife :: string where
  "Umsetzungsreife = ''Umsetzungsreife''"

definition DIMENSIONS :: "string list" where
  "DIMENSIONS = [Unternehmerische_Persoenlichkeit, Fachkompetenz, Marktverstaendnis, Finanzplanung, Umsetzungsreife]"

text \<open>The fifteen questions, in the order of the list that \<^verbatim>\<open>get_question_bank\<close> returns.\<close>

definition ENT_001 :: question where
  "ENT_001 = \<lparr>
     q_id = ''ENT_001'',
     q_dimension = Unternehmerische_Persoenlichkeit,
     q_type = ''likert'',
     q_text = ''Ich bin bereit, kalkulierte Risiken einzugehen, um meine Gesch'' @
        [CHR 0xC3, CHR 0xA4] @ ''ftsziele zu erreichen.'',
     q_options = [
        (VInt 1, ''Stimme gar nicht zu''),
        (VInt 2, ''Stimme eher nicht zu''),
        (VInt 3, ''Neutral''),
        (VInt 4, ''Stimme eher zu''),
        (VInt 5, ''Stimme voll zu'')],
     q_scoring = None\<rparr>"

definition ENT_002 :: question where
  "ENT_002 = \<lparr>
     q_id = ''ENT_002'',
     q_dimension = Unternehmerische_Persoenlichkeit,
     q_type = ''likert'',
     q_text = ''Ich ergreife proaktiv Initiativen und warte nicht darauf, dass andere mir sagen, was zu tun ist.'',
     q_options = [
        (VInt 1, ''Stimme gar nicht zu''),
        (VInt 2, ''Stimme eher nicht zu''),
        (VInt 3, ''Neutral''),
        (VInt 4, ''Stimme eher zu''),
        (VInt 5, ''Stimme voll zu'')],
     q_scoring = None\<rparr>"

definition ENT_003 :: question where
  "ENT_003 = \<lparr>
     q_id = ''ENT_003'',
     q_dimension = Unternehmerische_Persoenlichkeit,
     q_type = ''likert'',
     q_text = ''Ich kann gut mit Unsicherheit umgehen und bleibe auch bei R'' @
         [CHR 0xC3, CHR 0xBC] @
        ''ckschl'' @ [CHR 0xC3, CHR 0xA4] @ ''gen motiviert.'',
     q_options = [
        (VInt 1, ''Stimme gar nicht zu''),
        (VInt 2, ''Stimme eher nicht zu''),
        (VInt 3, ''Neutral''),
        (VInt 4, ''Stimme eher zu''),
        (VInt 5, ''Stimme voll zu'')],
     q_scoring = None\<rparr>"

definition COMP_001 :: question where
  "COMP_001 = \<lparr>
     q_id = ''COMP_001'',
     q_dimension = Fachkompetenz,
     q_type = ''multiple_choice'',
     q_text = ''Wie lange haben Sie bereits Erfahrung in der Branche Ihrer geplanten Selbstst'' @
        [CHR 0xC3, CHR 0xA4] @ ''ndigkeit?'',
     q_options = [
        (VStr (''no_experience''), ''Keine Erfahrung''),
        (VStr (''less_1_year''), ''Weniger als 1 Jahr''),
        (VStr (''1_3_years''), ''1-3 Jahre''),
        (VStr (''3_5_years''), ''3-5 Jahre''),
        (VStr (''more_5_years''), ''Mehr als 5 Jahre'')],
     q_scoring = Some [(''no_experience'', 1), (''less_1_year'', 2), (''1_3_years'', 3), (''3_5_years'', 4), (''more_5_years'', 5)]\<rparr>"

definition COMP_002 :: question where
  "COMP_002 = \<lparr>
     q_id = ''COMP_002'',
     q_dimension = Fachkompetenz,
     q_type = ''yes_no'',
     q_text = ''Haben Sie eine formale Ausbildung oder Qualifikation, die f'' @
         [CHR 0xC3, CHR 0xBC] @
        ''r Ihre Gr'' @ [CHR 0xC3, CHR 0xBC] @ ''ndung relevant ist?'',
     q_options = [
        (VStr (''yes''), ''Ja''),
        (VStr (''no''), ''Nein'')],
     q_scoring = Some [(''yes'', 5), (''no'', 1)]\<rparr>"

definition COMP_003 :: question where
  "COMP_003 = \<lparr>
     q_id = ''COMP_003'',
     q_dimension = Fachkompetenz,
     q_type = ''likert'',
     q_text = ''Ich verf'' @ [CHR 0xC3, CHR 0xBC] @ ''ge '' @ [CHR 0xC3, CHR 0xBC] @
        ''ber alle notwendigen fachlichen F'' @ [CHR 0xC3, CHR 0xA4] @
            ''higkeiten, um mein Gesch'' @
        [CHR 0xC3, CHR 0xA4] @ ''ft erfolgreich zu f'' @ [CHR 0xC3, CHR 0xBC] @ ''hren.'',
     q_options = [
        (VInt 1, ''Stimme gar nicht zu''),
        (VInt 2, ''Stimme eher nicht zu''),
        (VInt 3, ''Neutral''),
        (VInt 4, ''Stimme eher zu''),
        (VInt 5, ''Stimme voll zu'')],
     q_scoring = None\<rparr>"

definition MARKET_001 :: question where
  "MARKET_001 = \<lparr>
     q_id = ''MARKET_001'',
     q_dimension = Marktverstaendnis,
     q_type = ''yes_no'',
     q_text = ''Haben Sie eine detaillierte Zielgruppenanalyse durchgef'' @ [CHR 0xC3, CHR 0xBC] @
        ''hrt und wissen genau, wer Ihre Kunden sein werden?'',
     q_options = [
        (VStr (''yes''), ''Ja, detailliert''),
        (VStr (''partial''), ''Teilweise''),
        (VStr (''no''), ''Nein, noch nicht'')],
     q_scoring = Some [(''yes'', 5), (''partial'', 3), (''no'', 1)]\<rparr>"

definition MARKET_002 :: question where
  "MARKET_002 = \<lparr>
     q_id = ''MARKET_002'',
     q_dimension = Marktverstaendnis,
     q_type = ''yes_no'',
     q_text = ''Kennen Sie Ihre direkten Wettbewerber und k'' @ [CHR 0xC3, CHR 0xB6] @
        ''nnen Sie klar beschreiben, was Ihr Angebot von ihnen unterscheidet?'',
     q_options = [
        (VStr (''yes''), ''Ja, genau''),
        (VStr (''partial''), ''Teilweise''),
        (VStr (''no''), ''Nein'')],
     q_scoring = Some [(''yes'', 5), (''partial'', 3), (''no'', 1)]\<rparr>"

definition MARKET_003 :: question where
  "MARKET_003 = \<lparr>
     q_id = ''MARKET_003'',
     q_dimension = Marktverstaendnis,
     q_type = ''likert'',
     q_text = ''Ich habe bereits potenzielle Kunden befragt oder Interesse an meinem Angebot validiert.'',
     q_options = [
        (VInt 1, ''Stimme gar nicht zu''),
        (VInt 2, ''Stimme eher nicht zu''),
        (VInt 3, ''Neutral''),
        (VInt 4, ''Stimme eher zu''),
        (VInt 5, ''Stimme voll zu'')],
     q_scoring = None\<rparr>"

definition FIN_001 :: question where
  "FIN_001 = \<lparr>
     q_id = ''FIN_001'',
     q_dimension = Finanzplanung,
     q_type = ''yes_no'',
     q_text = ''Haben Sie eine detaillierte Finanzplanung f'' @ [CHR 0xC3, CHR 0xBC] @
        ''r mindestens die ersten 3 Jahre erstellt?'',
     q_options = [
        (VStr (''yes''), ''Ja, vollst'' @ [CHR 0xC3, CHR 0xA4] @ ''ndig''),
        (VStr (''partial''), ''Teilweise''),
        (VStr (''no''), ''Nein'')],
     q_scoring = Some [(''yes'', 5), (''partial'', 3), (''no'', 1)]\<rparr>"

definition FIN_002 :: question where
  "FIN_002 = \<lparr>
     q_id = ''FIN_002'',
     q_dimension = Finanzplanung,
     q_type = ''multiple_choice'',
     q_text = ''Wie hoch ist Ihr gesch'' @ [CHR 0xC3, CHR 0xA4] @ ''tzter Kapitalbedarf f'' @
        [CHR 0xC3, CHR 0xBC] @ ''r die Gr'' @ [CHR 0xC3, CHR 0xBC] @ ''ndung?'',
     q_options = [
        (VStr (''unclear''), ''Noch unklar''),
        (VStr (''under_10k''), ''Unter 10.000'' @ [CHR 0xE2, CHR 0x82, CHR 0xAC]),
        (VStr (''10_30k''), ''10.000'' @ [CHR 0xE2, CHR 0x82, CHR 0xAC] @ '' - 30.000'' @
        [CHR 0xE2, CHR 0x82, CHR 0xAC]),
        (VStr (''30_50k''), ''30.000'' @ [CHR 0xE2, CHR 0x82, CHR 0xAC] @ '' - 50.000'' @
        [CHR 0xE2, CHR 0x82, CHR 0xAC]),
        (VStr (''over_50k''), [CHR 0xC3, CHR 0x9C] @ ''ber 50.000'' @
        [CHR 0xE2, CHR 0x82, CHR 0xAC])],
     q_scoring = Some [(''unclear'', 1), (''under_10k'', 4), (''10_30k'', 5), (''30_50k'', 4), (''over_50k'', 3)]\<rparr>"

definition FIN_003 :: question where
  "FIN_003 = \<lparr>
     q_id = ''FIN_003'',
     q_dimension = Finanzplanung,
     q_type = ''likert'',
     q_text = ''Ich habe realistische Umsatzprognosen erstellt, die auf Marktdaten basieren.'',
     q_options = [
        (VInt 1, ''Stimme gar nicht zu''),
        (VInt 2, ''Stimme eher nicht zu''),
        (VInt 3, ''Neutral''),
        (VInt 4, ''Stimme eher zu''),
        (VInt 5, ''Stimme voll zu'')],
     q_scoring = None\<rparr>"

definition IMPL_001 :: question where
  "IMPL_001 = \<lparr>
     q_id = ''IMPL_001'',
     q_dimension = Umsetzungsreife,
     q_type = ''multiple_choice'',
     q_text = ''In welchem Stadium befindet sich Ihre Gr'' @ [CHR 0xC3, CHR 0xBC] @
        ''ndungsvorbereitung?'',
     q_options = [
        (VStr (''idea''), ''Fr'' @ [CHR 0xC3, CHR 0xBC] @ ''he Ideenphase''),
        (VStr (''concept''), ''Konzeptentwicklung''),
        (VStr (''planning''), ''Detailplanung''),
        (VStr (''ready''), ''Startbereit'')],
     q_scoring = Some [(''idea'', 2), (''concept'', 3), (''planning'', 4), (''ready'', 5)]\<rparr>"

definition IMPL_002 :: question where
  "IMPL_002 = \<lparr>
     q_id = ''IMPL_002'',
     q_dimension = Umsetzungsreife,
     q_type = ''yes_no'',
     q_text = ''Haben Sie bereits konkrete Schritte unternommen (z.B. Gewerbe angemeldet, Website erstellt, Kunden kontaktiert)?'',
     q_options = [
        (VStr (''yes''), ''Ja, mehrere''),
        (VStr (''some''), ''Einige''),
        (VStr (''no''), ''Noch keine'')],
     q_scoring = Some [(''yes'', 5), (''some'', 3), (''no'', 1)]\<rparr>"

definition IMPL_003 :: question where
  "IMPL_003 = \<lparr>
     q_id = ''IMPL_003'',
     q_dimension = Umsetzungsreife,
     q_type = ''likert'',
     q_text = ''Ich k'' @ [CHR 0xC3, CHR 0xB6] @ ''nnte innerhalb der n'' @ [CHR 0xC3, CHR 0xA4] @
        ''chsten 4 Wochen mit meiner selbstst'' @ [CHR 0xC3, CHR 0xA4] @ ''ndigen T'' @
        [CHR 0xC3, CHR 0xA4] @ ''tigkeit starten.'',
     q_options = [
        (VInt 1, ''Stimme gar nicht zu''),
        (VInt 2, ''Stimme eher nicht zu''),
        (VInt 3, ''Neutral''),
        (VInt 4, ''Stimme eher zu''),
        (VInt 5, ''Stimme voll zu'')],
     q_scoring = None\<rparr>"

definition get_question_bank :: "question list" where
  "get_question_bank = [ENT_001, ENT_002, ENT_003, COMP_001, COMP_002, COMP_003, MARKET_001, MARKET_002, MARKET_003, FIN_001, FIN_002, FIN_003, IMPL_001, IMPL_002, IMPL_003]"

section \<open>Session data (the dict built by \<^verbatim>\<open>start_assessment\<close> in \<^verbatim>\<open>main.py\<close>)\<close>

record answer_entry =
  answer :: py_value
  timestamp :: string

text \<open>\<open>current_question_index\<close> starts at 0 and is only ever incremented, so it is a
  natural number. \<open>scores\<close> is created empty and never read or written again.\<close>

record session =
  session_id :: string
  user_id :: string
  language :: string
  started_at :: string
  current_question_index :: nat
  answers :: "string \<rightharpoonup> answer_entry"
  scores :: "string \<rightharpoonup> real"

section \<open>The assessment engine (\<^verbatim>\<open>assessment/engine.py\<close>)\<close>

text \<open>\<^verbatim>\<open>d[k] = v\<close> on a dict written as an association list: an existing key keeps its place,
  a new key goes to the end.\<close>

definition dict_set :: "('k \<times> 'v) list \<Rightarrow> 'k \<Rightarrow> 'v \<Rightarrow> ('k \<times> 'v) list" where
  "dict_set d k v = AList.update k v d"

text \<open>The attributes of \<^verbatim>\<open>self\<close>. \<^verbatim>\<open>self.total_questions\<close> is set once, to the length of the
  bank, and is read as that length.\<close>

record engine =
  question_bank :: "question list"
  self_dimensions :: "string list"

definition AssessmentEngine_init :: engine where
  "AssessmentEngine_init = \<lparr>question_bank = get_question_bank, self_dimensions = DIMENSIONS\<rparr>"

definition total_questions :: "engine \<Rightarrow> nat" where
  "total_questions self = length (question_bank self)"

record question_view =
  question_id :: string
  question_text :: string
  question_type :: string
  options :: "(py_value \<times> string) list"
  dimension :: string
  order_no :: nat
  total_no :: nat

definition get_next_question :: "engine \<Rightarrow> session \<Rightarrow> question_view option" where
  "get_next_question self session_data =
     (let current_index = current_question_index session_data in
        if current_index \<ge> total_questions self then None
        else
          let question = question_bank self ! current_index in
            Some \<lparr>question_id = q_id question,
                  question_text = q_text question,
                  question_type = q_type question,
                  options = q_options question,
                  dimension = q_dimension question,
                  order_no = current_index + 1,
                  total_no = total_questions self\<rparr>)"

subsection \<open>Scoring one answer\<close>

definition score_answer :: "builtins \<Rightarrow> question \<Rightarrow> py_value \<Rightarrow> py_error + real" where
  "score_answer py question answer_value =
     (let question_type = q_type question in
        if question_type = ''likert'' then py_float py answer_value
        else if question_type = ''multiple_choice'' then
          (let scoring = (case q_scoring question of None \<Rightarrow> [] | Some t \<Rightarrow> t) in
             Inr (dict_get scoring (py_str py answer_value) 0))
        else if question_type = ''yes_no'' then
          (let scoring = (case q_scoring question of None \<Rightarrow> [(''yes'', 5), (''no'', 0)] | Some t \<Rightarrow> t) in
             case py_lower answer_value of
               Inl e \<Rightarrow> Inl e
             | Inr key \<Rightarrow> Inr (dict_get scoring key 0))
        else if question_type = ''text'' then
          Inr (if length (str_strip (py_str py answer_value)) > 0 then 3 else 0)
        else Inr 0)"

definition get_level :: "real \<Rightarrow> string" where
  "get_level score_value =
     (if score_value \<ge> 4 then ''Hoch''
      else if score_value \<ge> 5 / 2 then ''Mittel''
      else ''Niedrig'')"

definition interpretations :: "(string \<times> (string \<times> string) list) list" where
  "interpretations =
     [(Unternehmerische_Persoenlichkeit,
        [(''Hoch'', ''Sie zeigen ausgepr'' @ [CHR 0xC3, CHR 0xA4] @
            ''gte unternehmerische Eigenschaften wie Risikobereitschaft und Proaktivit'' @
            [CHR 0xC3, CHR 0xA4] @ ''t.''),
         (''Mittel'', ''Ihre unternehmerischen Eigenschaften sind gut entwickelt, k'' @
             [CHR 0xC3, CHR 0xB6] @ ''nnen aber noch gest'' @ [CHR 0xC3, CHR 0xA4] @
             ''rkt werden.''),
         (''Niedrig'', ''Es empfiehlt sich, an unternehmerischen Kompetenzen zu arbeiten.'')]),
      (Fachkompetenz,
        [(''Hoch'', ''Sie verf'' @ [CHR 0xC3, CHR 0xBC] @ ''gen '' @ [CHR 0xC3, CHR 0xBC] @
            ''ber starke fachliche Qualifikationen f'' @ [CHR 0xC3, CHR 0xBC] @ ''r Ihre Gr'' @
            [CHR 0xC3, CHR 0xBC] @ ''ndung.''),
         (''Mittel'', ''Ihre fachlichen Kompetenzen sind solide, spezifische Weiterbildung k'' @
             [CHR 0xC3, CHR 0xB6] @ ''nnte hilfreich sein.''),
         (''Niedrig'', ''Fachliche Weiterbildung wird empfohlen, um Ihre Erfolgschancen zu erh'' @
             [CHR 0xC3, CHR 0xB6] @ ''hen.'')]),
      (Marktverstaendnis,
        [(''Hoch'', ''Sie haben ein klares Verst'' @ [CHR 0xC3, CHR 0xA4] @
            ''ndnis Ihres Zielmarktes und Ihrer Kunden.''),
         (''Mittel'', ''Ihr Marktverst'' @ [CHR 0xC3, CHR 0xA4] @
             ''ndnis ist vorhanden, vertiefte Marktforschung w'' @ [CHR 0xC3, CHR 0xA4] @
             ''re vorteilhaft.''),
         (''Niedrig'', ''Intensivere Auseinandersetzung mit dem Markt ist wichtig f'' @
             [CHR 0xC3, CHR 0xBC] @ ''r Ihren Erfolg.'')]),
      (Finanzplanung,
        [(''Hoch'', ''Ihre Finanzplanung ist durchdacht und realistisch.''),
         (''Mittel'', ''Grundlegende Finanzplanung vorhanden, Details sollten verfeinert werden.''),
         (''Niedrig'', ''Professionelle Unterst'' @ [CHR 0xC3, CHR 0xBC] @
             ''tzung bei der Finanzplanung wird dringend empfohlen.'')]),
      (Umsetzungsreife,
        [(''Hoch'', ''Sie sind gut vorbereitet und k'' @ [CHR 0xC3, CHR 0xB6] @
            ''nnen mit der Umsetzung beginnen.''),
         (''Mittel'', ''Einige Vorbereitungen sind noch zu treffen, bevor Sie starten k'' @
             [CHR 0xC3, CHR 0xB6] @ ''nnen.''),
         (''Niedrig'', ''Erhebliche Vorarbeit ist noch erforderlich f'' @ [CHR 0xC3, CHR 0xBC] @
             ''r einen erfolgreichen Start.'')])]"

definition get_interpretation :: "string \<Rightarrow> real \<Rightarrow> string" where
  "get_interpretation dname score_value =
     (let level_name = get_level score_value in
        dict_get (dict_get interpretations dname []) level_name [])"

subsection \<open>Per-dimension aggregation\<close>

record dim_acc =
  raw_score :: real
  count :: nat

record dim_result =
  score :: real
  level :: string
  interpretation_text :: string

text \<open>\<^verbatim>\<open>{dim: {"raw_score": 0, "count": 0} for dim in self.dimensions}\<close>\<close>

definition init_dimension_scores :: "string list \<Rightarrow> (string \<times> dim_acc) list" where
  "init_dimension_scores dims = foldl (\<lambda>d dname. dict_set d dname \<lparr>raw_score = 0, count = 0\<rparr>) [] dims"

text \<open>The two \<^verbatim>\<open>+=\<close> on \<^verbatim>\<open>dimension_scores[dimension]\<close>; a dimension that is no key raises
  \<^verbatim>\<open>KeyError\<close>.\<close>

definition add_score :: "(string \<times> dim_acc) list \<Rightarrow> string \<Rightarrow> real \<Rightarrow> py_error + (string \<times> dim_acc) list" where
  "add_score dimension_scores dname s =
     (case map_of dimension_scores dname of
        None \<Rightarrow> Inl KeyError
      | Some data \<Rightarrow>
          Inr (dict_set dimension_scores dname \<lparr>raw_score = raw_score data + s, count = count data + 1\<rparr>))"

text \<open>The loop over \<^verbatim>\<open>self.question_bank\<close>: the first exception ends it.\<close>

fun score_questions ::
  "builtins \<Rightarrow> (string \<rightharpoonup> answer_entry) \<Rightarrow> question list \<Rightarrow> (string \<times> dim_acc) list
    \<Rightarrow> py_error + (string \<times> dim_acc) list" where
  "score_questions py answers_map [] dimension_scores = Inr dimension_scores"
| "score_questions py answers_map (question # rest) dimension_scores =
     (case answers_map (q_id question) of
        None \<Rightarrow> score_questions py answers_map rest dimension_scores
      | Some answer_data \<Rightarrow>
          (case score_answer py question (answer answer_data) of
             Inl e \<Rightarrow> Inl e
           | Inr s \<Rightarrow>
               (case add_score dimension_scores (q_dimension question) s of
                  Inl e \<Rightarrow> Inl e
                | Inr dimension_scores' \<Rightarrow> score_questions py answers_map rest dimension_scores')))"

text \<open>The loop over \<^verbatim>\<open>dimension_scores.items()\<close> that fills \<^verbatim>\<open>normalized_dimensions\<close>.\<close>

fun normalize_dimensions ::
  "(string \<times> dim_acc) list \<Rightarrow> (string \<times> dim_result) list \<Rightarrow> (string \<times> dim_result) list" where
  "normalize_dimensions [] normalized = normalized"
| "normalize_dimensions ((dname, data) # rest) normalized =
     (if count data > 0 then
        (let avg_score = raw_score data / real (count data) in
           normalize_dimensions rest
             (dict_set normalized dname
                \<lparr>score = py_round1 (avg_score * 20),
                 level = get_level avg_score,
                 interpretation_text = get_interpretation dname avg_score\<rparr>))
      else normalize_dimensions rest normalized)"

subsection \<open>Overall score, readiness level, recommendations, next steps\<close>

text \<open>The dict \<^verbatim>\<open>weights\<close> of \<^verbatim>\<open>_calculate_overall_score\<close> and its loop over
  \<^verbatim>\<open>dimensions.items()\<close>.\<close>

definition weights :: "(string \<times> real) list" where
  "weights =
     [(Unternehmerische_Persoenlichkeit, 20 / 100),
      (Fachkompetenz, 25 / 100),
      (Marktverstaendnis, 25 / 100),
      (Finanzplanung, 20 / 100),
      (Umsetzungsreife, 10 / 100)]"

fun weighted_sums :: "(string \<times> dim_result) list \<Rightarrow> real \<Rightarrow> real \<Rightarrow> real \<times> real" where
  "weighted_sums [] weighted_sum total_weight = (weighted_sum, total_weight)"
| "weighted_sums ((dname, data) # rest) weighted_sum total_weight =
     (case map_of weights dname of
        Some w \<Rightarrow> weighted_sums rest (weighted_sum + score data * w) (total_weight + w)
      | None \<Rightarrow> weighted_sums rest weighted_sum total_weight)"

definition calculate_overall_score :: "(string \<times> dim_result) list \<Rightarrow> real" where
  "calculate_overall_score dims =
     (case weighted_sums dims 0 0 of
        (weighted_sum, total_weight) \<Rightarrow>
          py_round1 (if total_weight > 0 then weighted_sum / total_weight else 0))"

text \<open>The four labels \<^verbatim>\<open>_get_readiness_level\<close> returns.\<close>

definition level_hoch :: string where
  "level_hoch = ''Hoch - Sehr gute Bewilligungschancen''"

definition level_mittel :: string where
  "level_mittel = ''Mittel - Gute Chancen mit Optimierungen''"

definition level_ausbaufaehig :: string where
  "level_ausbaufaehig = ''Ausbauf'' @ [CHR 0xC3, CHR 0xA4] @ ''hig - Verbesserungen erforderlich''"

definition level_niedrig :: string where
  "level_niedrig = ''Niedrig - Erhebliche Vorbereitung notwendig''"

definition get_readiness_level :: "real \<Rightarrow> string" where
  "get_readiness_level overall =
     (if overall \<ge> 75 then level_hoch
      else if overall \<ge> 55 then level_mittel
      else if overall \<ge> 35 then level_ausbaufaehig
      else level_niedrig)"

text \<open>The six messages \<^verbatim>\<open>_generate_recommendations\<close> chooses from.\<close>

definition rec_excellent :: string where
  "rec_excellent = ''Ihre Vorbereitung ist ausgezeichnet. Fokussieren Sie jetzt auf die formale Antragstellung.''"

definition rec_finanzplanung :: string where
  "rec_finanzplanung = ''Erstellen Sie eine detaillierte 3-Jahres-Finanzplanung mit realistischen Annahmen.''"

definition rec_marktverstaendnis :: string where
  "rec_marktverstaendnis = ''F'' @ [CHR 0xC3, CHR 0xBC] @ ''hren Sie eine gr'' @
      [CHR 0xC3, CHR 0xBC] @ ''ndliche Markt- und Wettbewerbsanalyse durch.''"

definition rec_fachkompetenz :: string where
  "rec_fachkompetenz = ''Dokumentieren Sie Ihre fachlichen Qualifikationen und Branchenerfahrung detailliert.''"

definition rec_umsetzungsreife :: string where
  "rec_umsetzungsreife = ''Entwickeln Sie einen konkreten Zeitplan f'' @ [CHR 0xC3, CHR 0xBC] @
      ''r Ihre ersten 6 Monate.''"

definition rec_general :: string where
  "rec_general = ''Nutzen Sie die Gr'' @ [CHR 0xC3, CHR 0xBC] @
      ''ndungszuschuss-Beratung Ihrer Agentur f'' @ [CHR 0xC3, CHR 0xBC] @ ''r Arbeit.''"

definition generate_recommendations :: "(string \<times> dim_result) list \<Rightarrow> real \<Rightarrow> string list" where
  "generate_recommendations dims overall =
     (let weak_dimensions = map fst (filter (\<lambda>(dname, data). score data < 60) dims);
          r0 = [];
          r1 = (if overall \<ge> 75 then r0 @ [rec_excellent] else r0);
          r2 = (if Finanzplanung \<in> set weak_dimensions then r1 @ [rec_finanzplanung] else r1);
          r3 = (if Marktverstaendnis \<in> set weak_dimensions then r2 @
              [rec_marktverstaendnis] else r2);
          r4 = (if Fachkompetenz \<in> set weak_dimensions then r3 @ [rec_fachkompetenz] else r3);
          r5 = (if Umsetzungsreife \<in> set weak_dimensions then r4 @
              [rec_umsetzungsreife] else r4);
          r6 = r5 @ [rec_general]
      in take 5 r6)"

text \<open>The three lists of \<^verbatim>\<open>_generate_next_steps\<close>.\<close>

definition steps_hoch :: "string list" where
  "steps_hoch =
     [''Terminvereinbarung mit Ihrer Agentur f'' @ [CHR 0xC3, CHR 0xBC] @ ''r Arbeit'',
      ''Businessplan finalisieren und formatieren'',
      ''Stellungnahme einer fachkundigen Stelle einholen'',
      ''Alle erforderlichen Unterlagen zusammenstellen'',
      ''Antrag einreichen'']"

definition steps_mittel :: "string list" where
  "steps_mittel =
     [''Schwachstellen in Ihrem Konzept identifizieren und beheben'',
      ''Businessplan von Experten pr'' @ [CHR 0xC3, CHR 0xBC] @ ''fen lassen'',
      ''Fehlende Qualifikationen nachweisen oder aufbauen'',
      ''Finanzplanung mit einem Berater durchgehen'',
      ''Dann Antrag bei der Agentur f'' @ [CHR 0xC3, CHR 0xBC] @ ''r Arbeit stellen'']"

definition steps_else :: "string list" where
  "steps_else =
     [''Gr'' @ [CHR 0xC3, CHR 0xBC] @ ''ndungsberatung in Anspruch nehmen'',
      ''Businessplan-Workshop oder -Kurs besuchen'',
      ''Gesch'' @ [CHR 0xC3, CHR 0xA4] @ ''ftsidee sch'' @ [CHR 0xC3, CHR 0xA4] @
          ''rfen und validieren'',
      ''Fachliche Kompetenzen gezielt ausbauen'',
      ''Assessment nach Vorbereitung wiederholen'']"

definition generate_next_steps :: "string \<Rightarrow> (string \<times> dim_result) list \<Rightarrow> string list" where
  "generate_next_steps readiness dims =
     (if str_contains ''Hoch'' readiness then steps_hoch
      else if str_contains ''Mittel'' readiness then steps_mittel
      else steps_else)"

subsection \<open>\<^verbatim>\<open>calculate_results\<close>\<close>

record results =
  overall_score :: real
  readiness_level :: string
  dimensions :: "(string \<times> dim_result) list"
  recommendations :: "string list"
  next_steps :: "string list"

definition calculate_results :: "builtins \<Rightarrow> engine \<Rightarrow> session \<Rightarrow> py_error + results" where
  "calculate_results py self session_data =
     (let answers_map = answers session_data;
          dimension_scores0 = init_dimension_scores (self_dimensions self)
      in case score_questions py answers_map (question_bank self) dimension_scores0 of
           Inl e \<Rightarrow> Inl e
         | Inr dimension_scores \<Rightarrow>
             (let normalized_dimensions = normalize_dimensions dimension_scores [];
                  overall = calculate_overall_score normalized_dimensions;
                  readiness = get_readiness_level overall;
                  recs = generate_recommendations normalized_dimensions overall;
                  steps = generate_next_steps readiness normalized_dimensions
              in Inr \<lparr>overall_score = overall,
                      readiness_level = readiness,
                      dimensions = normalized_dimensions,
                      recommendations = recs,
                      next_steps = steps\<rparr>))"

section \<open>The request handlers (\<^verbatim>\<open>main.py\<close>)\<close>

text \<open>
  The module-level dict \<^verbatim>\<open>sessions\<close> is passed in and returned with the response, so that a
  handler's effect on it can be stated. A session dict is shared between the store and the
  handler's local variable; the model writes the changed session back under its id.
  The clock (\<^verbatim>\<open>datetime.utcnow().isoformat()\<close>) and the fresh UUIDs are arguments.
\<close>

type_synonym store = "string \<rightharpoonup> session"

text \<open>The \<^verbatim>\<open>detail\<close> of an \<^verbatim>\<open>HTTPException\<close>: a fixed text, or a fixed prefix followed by
  \<^verbatim>\<open>str(e)\<close> of the exception that was caught.\<close>

datatype detail = Detail string | DetailWith string py_error

datatype http_exception = HTTPException (status_code: nat) (detail: detail)

definition assessment_engine :: engine where
  "assessment_engine = AssessmentEngine_init"

record start_assessment_response =
  sr_session_id :: string
  sr_total_questions :: nat
  sr_estimated_time_minutes :: nat
  sr_first_question :: "question_view option"

text \<open>\<^verbatim>\<open>request.user_id or str(uuid.uuid4())\<close>: a missing or empty user id is replaced.\<close>

definition start_assessment ::
  "store \<Rightarrow> string \<Rightarrow> string \<Rightarrow> string \<Rightarrow> string option \<Rightarrow> string
    \<Rightarrow> start_assessment_response \<times> store" where
  "start_assessment sessions now uuid1 uuid2 req_user_id req_language =
     (let new_id = uuid1;
          session_data =
            \<lparr>session_id = new_id,
             user_id = (case req_user_id of None \<Rightarrow> uuid2 | Some u \<Rightarrow> if u = [] then uuid2 else u),
             language = req_language,
             started_at = now,
             current_question_index = 0,
             answers = Map.empty,
             scores = Map.empty\<rparr>;
          sessions' = sessions(new_id \<mapsto> session_data);
          first_question = get_next_question assessment_engine session_data
      in (\<lparr>sr_session_id = new_id,
            sr_total_questions = total_questions assessment_engine,
            sr_estimated_time_minutes = 10,
            sr_first_question = first_question\<rparr>, sessions'))"

record submit_answer_response =
  next_question :: "question_view option"
  progress :: nat
  is_complete :: bool

text \<open>\<^verbatim>\<open>int((index / total) * 100)\<close>, in exact arithmetic. For the 15 questions of the bank
  the float computation gives the same number at every pointer from 0 to 15; beyond that
  (the pointer has no upper bound) binary rounding can make it one less, which the model
  does not show.\<close>

definition progress_percent :: "nat \<Rightarrow> nat \<Rightarrow> nat" where
  "progress_percent idx n_total = nat \<lfloor>(real idx / real n_total) * 100\<rfloor>"

definition session_not_found :: http_exception where
  "session_not_found = HTTPException 404 (Detail ''Session not found'')"

definition submit_answer ::
  "store \<Rightarrow> string \<Rightarrow> string \<Rightarrow> string \<Rightarrow> py_value
    \<Rightarrow> (http_exception + submit_answer_response) \<times> store" where
  "submit_answer sessions now req_session_id req_question_id req_answer =
     (case sessions req_session_id of
        None \<Rightarrow> (Inl session_not_found, sessions)
      | Some session_data \<Rightarrow>
          (let session_data1 = session_data
                 \<lparr>answers := (answers session_data)
                    (req_question_id \<mapsto> \<lparr>answer = req_answer, timestamp = now\<rparr>)\<rparr>;
               session_data2 = session_data1
                 \<lparr>current_question_index := current_question_index session_data1 + 1\<rparr>;
               sessions' = sessions(req_session_id \<mapsto> session_data2);
               complete = (current_question_index session_data2 \<ge> total_questions assessment_engine);
               next_q = (if complete then None else get_next_question assessment_engine session_data2);
               percent = progress_percent (current_question_index session_data2)
                           (total_questions assessment_engine)
           in (Inr \<lparr>next_question = next_q, progress = percent, is_complete = complete\<rparr>,
               sessions')))"

record assessment_results =
  ar_session_id :: string
  ar_results :: results
  completion_time :: string

definition get_results ::
  "builtins \<Rightarrow> store \<Rightarrow> string \<Rightarrow> string \<Rightarrow> (http_exception + assessment_results) \<times> store" where
  "get_results py sessions now req_session_id =
     (case sessions req_session_id of
        None \<Rightarrow> (Inl session_not_found, sessions)
      | Some session_data \<Rightarrow>
          (case calculate_results py assessment_engine session_data of
             Inl e \<Rightarrow>
               (Inl (HTTPException 500 (DetailWith ''Failed to calculate results: '' e)), sessions)
           | Inr res \<Rightarrow>
               (Inr \<lparr>ar_session_id = req_session_id, ar_results = res, completion_time = now\<rparr>,
                sessions)))"

record session_info =
  si_session_id :: string
  si_progress :: nat
  answers_count :: nat
  si_started_at :: string

definition get_session_info :: "store \<Rightarrow> string \<Rightarrow> (http_exception + session_info) \<times> store" where
  "get_session_info sessions req_session_id =
     (case sessions req_session_id of
        None \<Rightarrow> (Inl session_not_found, sessions)
      | Some session_data \<Rightarrow>
          (Inr \<lparr>si_session_id = req_session_id,
                si_progress = progress_percent (current_question_index session_data)
                                (total_questions assessment_engine),
                answers_count = card (dom (answers session_data)),
                si_started_at = started_at session_data\<rparr>,
           sessions))"

record error_body =
  error :: bool
  message :: detail
  eb_status_code :: nat

definition http_exception_handler :: "http_exception \<Rightarrow> error_body" where
  "http_exception_handler exc =
     \<lparr>error = True, message = detail exc, eb_status_code = status_code exc\<rparr>"

section \<open>Reference definitions\<close>

text \<open>
  The definitions of this section are not translated from the code: they state, in the
  specification's words, what the engine's loops are claimed to compute, and the
  theorems compare the two.
\<close>

text \<open>The specification's per-dimension aggregation, in its own words: the answered
  questions of a dimension, the score of each, their sum divided by their number, and the
  entry the dimension gets in the output.\<close>

definition answered_questions :: "(string \<rightharpoonup> answer_entry) \<Rightarrow> question list \<Rightarrow> string \<Rightarrow> question list" where
  "answered_questions answers_map bank dname =
     filter (\<lambda>q. q_dimension q = dname \<and> answers_map (q_id q) \<noteq> None) bank"

definition answer_score :: "builtins \<Rightarrow> (string \<rightharpoonup> answer_entry) \<Rightarrow> question \<Rightarrow> real" where
  "answer_score py answers_map q =
     (case answers_map (q_id q) of
        None \<Rightarrow> 0
      | Some e \<Rightarrow> (case score_answer py q (answer e) of Inl err \<Rightarrow> 0 | Inr s \<Rightarrow> s))"

definition raw_sum :: "builtins \<Rightarrow> (string \<rightharpoonup> answer_entry) \<Rightarrow> question list \<Rightarrow> string \<Rightarrow> real" where
  "raw_sum py answers_map bank dname =
     sum_list (map (answer_score py answers_map) (answered_questions answers_map bank dname))"

definition raw_average :: "builtins \<Rightarrow> (string \<rightharpoonup> answer_entry) \<Rightarrow> question list \<Rightarrow> string \<Rightarrow> real" where
  "raw_average py answers_map bank dname =
     raw_sum py answers_map bank dname / real (length (answered_questions answers_map bank dname))"

definition spec_dimension_entry ::
  "builtins \<Rightarrow> (string \<rightharpoonup> answer_entry) \<Rightarrow> question list \<Rightarrow> string \<Rightarrow> dim_result" where
  "spec_dimension_entry py answers_map bank dname =
     \<lparr>score = py_round1 (raw_average py answers_map bank dname * 20),
      level = get_level (raw_average py answers_map bank dname),
      interpretation_text = get_interpretation dname (raw_average py answers_map bank dname)\<rparr>"

definition spec_dimensions ::
  "builtins \<Rightarrow> (string \<rightharpoonup> answer_entry) \<Rightarrow> question list \<Rightarrow> string list
    \<Rightarrow> (string \<times> dim_result) list" where
  "spec_dimensions py answers_map bank dims =
     map (\<lambda>dname. (dname, spec_dimension_entry py answers_map bank dname))
       (filter (\<lambda>dname. answered_questions answers_map bank dname \<noteq> []) dims)"

text \<open>The specification's overall score: the weighted mean of the normalized scores over
  the dimensions that have an entry, rounded to one decimal; 0 when there is none.\<close>

definition weight_of :: "string \<Rightarrow> real" where
  "weight_of dname = dict_get weights dname 0"

definition spec_overall :: "(string \<times> dim_result) list \<Rightarrow> real" where
  "spec_overall dims =
     (if dims = [] then 0
      else py_round1
        (sum_list (map (\<lambda>(dname, data). weight_of dname * score data) dims) /
         sum_list (map (\<lambda>(dname, data). weight_of dname) dims)))"

text \<open>What the specification calls a weak dimension: one that has an entry in the
  per-dimension output whose normalized score is below 60.\<close>

definition weak :: "(string \<times> dim_result) list \<Rightarrow> string \<Rightarrow> bool" where
  "weak dims dname = (case map_of dims dname of None \<Rightarrow> False | Some data \<Rightarrow> score data < 60)"

text \<open>The specification's recommendation list: the messages in their fixed order, cut to
  five.\<close>

definition spec_recommendations :: "(string \<times> dim_result) list \<Rightarrow> real \<Rightarrow> string list" where
  "spec_recommendations dims overall =
     take 5
       ((if 75 \<le> overall then [rec_excellent] else []) @
        (if weak dims Finanzplanung then [rec_finanzplanung] else []) @
        (if weak dims Marktverstaendnis then [rec_marktverstaendnis] else []) @
        (if weak dims Fachkompetenz then [rec_fachkompetenz] else []) @
        (if weak dims Umsetzungsreife then [rec_umsetzungsreife] else []) @
        [rec_general])"

text \<open>Every answered likert question of the bank has an answer that \<^verbatim>\<open>float\<close> turns into a
  value between 0 and 5 (or rejects).\<close>

definition likert_in_range :: "builtins \<Rightarrow> (string \<rightharpoonup> answer_entry) \<Rightarrow> bool" where
  "likert_in_range py answers_map =
     list_all (\<lambda>q. q_type q \<noteq> ''likert'' \<or>
                 (case answers_map (q_id q) of
                    None \<Rightarrow> True
                  | Some e \<Rightarrow> (case py_float py (answer e) of
                                Inl err \<Rightarrow> True
                              | Inr x \<Rightarrow> 0 \<le> x \<and> x \<le> 5)))
       get_question_bank"

section \<open>Sample data\<close>

text \<open>A sample environment and a sample store: one session, at pointer 1, that has answered
  \<^verbatim>\<open>ENT_001\<close> with 3.\<close>

definition sample_builtins :: builtins where
  "sample_builtins = \<lparr>float_of_str = (\<lambda>s. None), repr_of = (\<lambda>v. [])\<rparr>"

definition sample_session :: session where
  "sample_session =
     \<lparr>session_id = ''s1'', user_id = ''u1'', language = ''de'', started_at = ''t0'',
      current_question_index = 1,
      answers = [''ENT_001'' \<mapsto> \<lparr>answer = VInt 3, timestamp = ''t1''\<rparr>],
      scores = Map.empty\<rparr>"

definition sample_store :: store where
  "sample_store = [''s1'' \<mapsto> sample_session]"

text \<open>A session whose only answer is the out-of-range value 7 on the likert question
  \<^verbatim>\<open>ENT_001\<close>, a copy of the sample session with one more entry under an id that is no
  question, and a session without answers.\<close>

definition likert7_session :: session where
  "likert7_session =
     \<lparr>session_id = ''s7'', user_id = ''u7'', language = ''de'', started_at = ''t0'',
      current_question_index = 1,
      answers = [''ENT_001'' \<mapsto> \<lparr>answer = VInt 7, timestamp = ''t1''\<rparr>],
      scores = Map.empty\<rparr>"

definition stray_session :: session where
  "stray_session =
     sample_session\<lparr>answers := (answers sample_session)
        (''NO_SUCH_QUESTION'' \<mapsto> \<lparr>answer = VInt 5, timestamp = ''t2''\<rparr>)\<rparr>"


text \<open>Two per-dimension outputs for the recommendations: one with a single weak dimension,
  one in which all four dimensions that carry a message are weak.\<close>

definition two_dims :: "(string \<times> dim_result) list" where
  "two_dims =
     [(Fachkompetenz, \<lparr>score = 80, level = ''Hoch'', interpretation_text = []\<rparr>),
      (Finanzplanung, \<lparr>score = 50, level = ''Mittel'', interpretation_text = []\<rparr>)]"

definition all_weak :: "(string \<times> dim_result) list" where
  "all_weak =
     [(Unternehmerische_Persoenlichkeit, \<lparr>score = 1000, level = ''Hoch'', interpretation_text = []\<rparr>),
      (Fachkompetenz, \<lparr>score = 20, level = ''Niedrig'', interpretation_text = []\<rparr>),
      (Marktverstaendnis, \<lparr>score = 20, level = ''Niedrig'', interpretation_text = []\<rparr>),
      (Finanzplanung, \<lparr>score = 20, level = ''Niedrig'', interpretation_text = []\<rparr>),
      (Umsetzungsreife, \<lparr>score = 20, level = ''Niedrig'', interpretation_text = []\<rparr>)]"

section \<open>Facts about the bank and the builtins\<close>

lemma dimension_names_distinct: "distinct DIMENSIONS"
  by (simp add: DIMENSIONS_def Unternehmerische_Persoenlichkeit_def Fachkompetenz_def
        Marktverstaendnis_def Finanzplanung_def Umsetzungsreife_def)

lemma bank_q_id:
  "q_id ENT_001 = ''ENT_001''"
  "q_id ENT_002 = ''ENT_002''"
  "q_id ENT_003 = ''ENT_003''"
  "q_id COMP_001 = ''COMP_001''"
  "q_id COMP_002 = ''COMP_002''"
  "q_id COMP_003 = ''COMP_003''"
  "q_id MARKET_001 = ''MARKET_001''"
  "q_id MARKET_002 = ''MARKET_002''"
  "q_id MARKET_003 = ''MARKET_003''"
  "q_id FIN_001 = ''FIN_001''"
  "q_id FIN_002 = ''FIN_002''"
  "q_id FIN_003 = ''FIN_003''"
  "q_id IMPL_001 = ''IMPL_001''"
  "q_id IMPL_002 = ''IMPL_002''"
  "q_id IMPL_003 = ''IMPL_003''"
  by (simp_all add: ENT_001_def ENT_002_def ENT_003_def COMP_001_def COMP_002_def COMP_003_def MARKET_001_def MARKET_002_def MARKET_003_def FIN_001_def FIN_002_def FIN_003_def IMPL_001_def IMPL_002_def IMPL_003_def)

lemma bank_q_dimension:
  "q_dimension ENT_001 = Unternehmerische_Persoenlichkeit"
  "q_dimension ENT_002 = Unternehmerische_Persoenlichkeit"
  "q_dimension ENT_003 = Unternehmerische_Persoenlichkeit"
  "q_dimension COMP_001 = Fachkompetenz"
  "q_dimension COMP_002 = Fachkompetenz"
  "q_dimension COMP_003 = Fachkompetenz"
  "q_dimension MARKET_001 = Marktverstaendnis"
  "q_dimension MARKET_002 = Marktverstaendnis"
  "q_dimension MARKET_003 = Marktverstaendnis"
  "q_dimension FIN_001 = Finanzplanung"
  "q_dimension FIN_002 = Finanzplanung"
  "q_dimension FIN_003 = Finanzplanung"
  "q_dimension IMPL_001 = Umsetzungsreife"
  "q_dimension IMPL_002 = Umsetzungsreife"
  "q_dimension IMPL_003 = Umsetzungsreife"
  by (simp_all add: ENT_001_def ENT_002_def ENT_003_def COMP_001_def COMP_002_def COMP_003_def MARKET_001_def MARKET_002_def MARKET_003_def FIN_001_def FIN_002_def FIN_003_def IMPL_001_def IMPL_002_def IMPL_003_def)

lemma bank_q_type:
  "q_type ENT_001 = ''likert''"
  "q_type ENT_002 = ''likert''"
  "q_type ENT_003 = ''likert''"
  "q_type COMP_001 = ''multiple_choice''"
  "q_type COMP_002 = ''yes_no''"
  "q_type COMP_003 = ''likert''"
  "q_type MARKET_001 = ''yes_no''"
  "q_type MARKET_002 = ''yes_no''"
  "q_type MARKET_003 = ''likert''"
  "q_type FIN_001 = ''yes_no''"
  "q_type FIN_002 = ''multiple_choice''"
  "q_type FIN_003 = ''likert''"
  "q_type IMPL_001 = ''multiple_choice''"
  "q_type IMPL_002 = ''yes_no''"
  "q_type IMPL_003 = ''likert''"
  by (simp_all add: ENT_001_def ENT_002_def ENT_003_def COMP_001_def COMP_002_def COMP_003_def MARKET_001_def MARKET_002_def MARKET_003_def FIN_001_def FIN_002_def FIN_003_def IMPL_001_def IMPL_002_def IMPL_003_def)

lemma bank_q_scoring:
  "q_scoring ENT_001 = None"
  "q_scoring ENT_002 = None"
  "q_scoring ENT_003 = None"
  "q_scoring COMP_001 = Some [(''no_experience'', 1), (''less_1_year'', 2), (''1_3_years'', 3), (''3_5_years'', 4), (''more_5_years'', 5)]"
  "q_scoring COMP_002 = Some [(''yes'', 5), (''no'', 1)]"
  "q_scoring COMP_003 = None"
  "q_scoring MARKET_001 = Some [(''yes'', 5), (''partial'', 3), (''no'', 1)]"
  "q_scoring MARKET_002 = Some [(''yes'', 5), (''partial'', 3), (''no'', 1)]"
  "q_scoring MARKET_003 = None"
  "q_scoring FIN_001 = Some [(''yes'', 5), (''partial'', 3), (''no'', 1)]"
  "q_scoring FIN_002 = Some [(''unclear'', 1), (''under_10k'', 4), (''10_30k'', 5), (''30_50k'', 4), (''over_50k'', 3)]"
  "q_scoring FIN_003 = None"
  "q_scoring IMPL_001 = Some [(''idea'', 2), (''concept'', 3), (''planning'', 4), (''ready'', 5)]"
  "q_scoring IMPL_002 = Some [(''yes'', 5), (''some'', 3), (''no'', 1)]"
  "q_scoring IMPL_003 = None"
  by (simp_all add: ENT_001_def ENT_002_def ENT_003_def COMP_001_def COMP_002_def COMP_003_def MARKET_001_def MARKET_002_def MARKET_003_def FIN_001_def FIN_002_def FIN_003_def IMPL_001_def IMPL_002_def IMPL_003_def)

lemma total_questions_engine: "total_questions assessment_engine = 15"
  by (simp add: total_questions_def assessment_engine_def AssessmentEngine_init_def
        get_question_bank_def)

lemma progress_percent_div:
  assumes "0 < n"
  shows "progress_percent i n = (i * 100) div n"
proof -
  have "(real i / real n) * 100 = real (i * 100) / real n"
    by simp
  then have "\<lfloor>(real i / real n) * 100\<rfloor> = \<lfloor>real (i * 100) / real n\<rfloor>"
    by simp
  also have "\<dots> = int ((i * 100) div n)"
    by (metis floor_divide_of_nat_eq)
  finally show ?thesis
    by (simp add: progress_percent_def)
qed

lemma float_overflow_small: "\<not> float_overflow \<le> 3" "\<not> float_overflow \<le> 7"
  by (simp_all add: float_overflow_def)

lemma str_lower_samples:
  "str_lower ''Yes'' = ''yes''" "str_lower ''YES'' = ''yes''" "str_lower ''yes'' = ''yes''"
  "str_lower ''no'' = ''no''"
  by code_simp+

lemma levels_distinct:
  "level_hoch \<noteq> level_mittel" "level_hoch \<noteq> level_ausbaufaehig" "level_hoch \<noteq> level_niedrig"
  "level_mittel \<noteq> level_ausbaufaehig" "level_mittel \<noteq> level_niedrig"
  "level_ausbaufaehig \<noteq> level_niedrig"
  by (simp_all add: level_hoch_def level_mittel_def level_ausbaufaehig_def level_niedrig_def)

lemma contains_levels:
  "str_contains ''Hoch'' level_hoch"
  "\<not> str_contains ''Hoch'' level_mittel" "str_contains ''Mittel'' level_mittel"
  "\<not> str_contains ''Hoch'' level_ausbaufaehig" "\<not> str_contains ''Mittel'' level_ausbaufaehig"
  "\<not> str_contains ''Hoch'' level_niedrig" "\<not> str_contains ''Mittel'' level_niedrig"
  by (simp_all add: level_hoch_def level_mittel_def level_ausbaufaehig_def level_niedrig_def)

lemma steps_length: "length steps_hoch = 5" "length steps_mittel = 5" "length steps_else = 5"
  by (simp_all add: steps_hoch_def steps_mittel_def steps_else_def)

section \<open>The handlers on an unknown and on a known session\<close>

text \<open>
  Claim C8. A request whose session id is not in the store makes \<open>submit_answer\<close>,
  \<open>get_results\<close> and \<open>get_session_info\<close> raise the 404 \<^verbatim>\<open>HTTPException\<close>
  "Session not found", and the store they leave behind is the store they were given.
\<close>

theorem unknown_session_not_found:
  assumes "sessions sid = None"
  shows "submit_answer sessions now sid qid a = (Inl session_not_found, sessions)
       \<and> get_results py sessions now sid = (Inl session_not_found, sessions)
       \<and> get_session_info sessions sid = (Inl session_not_found, sessions)
       \<and> status_code session_not_found = 404
       \<and> detail session_not_found = Detail ''Session not found''"
  using assms
  by (simp add: submit_answer_def get_results_def get_session_info_def session_not_found_def)

theorem unknown_session_not_found_witness:
  "sample_store ''s2'' = None
   \<and> submit_answer sample_store ''t2'' ''s2'' ''ENT_001'' (VInt 4) = (Inl session_not_found, sample_store)
   \<and> get_results sample_builtins sample_store ''t2'' ''s2'' = (Inl session_not_found, sample_store)
   \<and> get_session_info sample_store ''s2'' = (Inl session_not_found, sample_store)
   \<and> http_exception_handler session_not_found =
        \<lparr>error = True, message = Detail ''Session not found'', eb_status_code = 404\<rparr>"
proof -
  have unknown: "sample_store ''s2'' = None"
    by (simp add: sample_store_def)
  show ?thesis
    using unknown
      unknown_session_not_found [where sessions = sample_store and sid = "''s2''" and now = "''t2''"
        and qid = "''ENT_001''" and a = "VInt 4" and py = sample_builtins]
    by (simp add: http_exception_handler_def)
qed

text \<open>
  Claim C1, as stated, fails: submitting again under a question id that the session has
  already answered moves the pointer. In the sample store the session is at pointer 1 with
  \<^verbatim>\<open>ENT_001\<close> answered; after the second submission of \<^verbatim>\<open>ENT_001\<close> it is at pointer 2,
  and the reported progress goes from 6 to 13.
\<close>

theorem resubmit_pointer_counterexample:
  "sample_store ''s1'' = Some sample_session
   \<and> answers sample_session ''ENT_001'' = Some \<lparr>answer = VInt 3, timestamp = ''t1''\<rparr>
   \<and> current_question_index sample_session = 1
   \<and> map_option current_question_index
        (snd (submit_answer sample_store ''t2'' ''s1'' ''ENT_001'' (VInt 5)) ''s1'') = Some 2
   \<and> map_sum id si_progress (fst (get_session_info sample_store ''s1'')) = Inr 6
   \<and> map_sum id progress
        (fst (submit_answer sample_store ''t2'' ''s1'' ''ENT_001'' (VInt 5))) = Inr 13
   \<and> map_sum id si_progress
        (fst (get_session_info
           (snd (submit_answer sample_store ''t2'' ''s1'' ''ENT_001'' (VInt 5))) ''s1'')) = Inr 13"
  by (simp add: sample_store_def sample_session_def submit_answer_def get_session_info_def
        Let_def total_questions_engine progress_percent_div)

text \<open>
  Claim C1, amended. For a session of the store and a question id that its answer map
  already holds, \<open>submit_answer\<close> succeeds, replaces the entry of that id by the new answer
  and the current time without adding a key, leaves every other session as it was, and
  moves the pointer forward by exactly one; the progress it reports is that of the new
  pointer, which is \<open>((index + 1) * 100) div 15\<close> as long as the new pointer does not
  exceed the 15 questions.
\<close>

theorem resubmit_overwrites_and_advances:
  assumes "sessions sid = Some sd" and "qid \<in> dom (answers sd)"
  shows "snd (submit_answer sessions now sid qid a) =
           sessions(sid \<mapsto> sd\<lparr>answers := (answers sd)(qid \<mapsto> \<lparr>answer = a, timestamp = now\<rparr>),
                                current_question_index := current_question_index sd + 1\<rparr>)
       \<and> dom ((answers sd)(qid \<mapsto> \<lparr>answer = a, timestamp = now\<rparr>)) = dom (answers sd)
       \<and> map_sum id progress (fst (submit_answer sessions now sid qid a)) =
           Inr (progress_percent (current_question_index sd + 1) 15)
       \<and> (if current_question_index sd + 1 \<le> 15
          then progress_percent (current_question_index sd + 1) 15 =
                 ((current_question_index sd + 1) * 100) div 15
          else True)"
  using assms
  by (auto simp add: submit_answer_def Let_def total_questions_engine progress_percent_div)

theorem resubmit_overwrites_and_advances_witness:
  "sample_store ''s1'' = Some sample_session
   \<and> ''ENT_001'' \<in> dom (answers sample_session)
   \<and> snd (submit_answer sample_store ''t2'' ''s1'' ''ENT_001'' (VInt 5)) =
        sample_store(''s1'' \<mapsto> sample_session
          \<lparr>answers := (answers sample_session)(''ENT_001'' \<mapsto> \<lparr>answer = VInt 5, timestamp = ''t2''\<rparr>),
           current_question_index := current_question_index sample_session + 1\<rparr>)
   \<and> map_sum id progress
        (fst (submit_answer sample_store ''t2'' ''s1'' ''ENT_001'' (VInt 5))) = Inr 13"
proof -
  have known: "sample_store ''s1'' = Some sample_session"
    by (simp add: sample_store_def)
  have answered: "''ENT_001'' \<in> dom (answers sample_session)"
    by (simp add: sample_session_def)
  have index: "current_question_index sample_session = 1"
    by (simp add: sample_session_def)
  show ?thesis
    using known answered
      resubmit_overwrites_and_advances [where sessions = sample_store and sid = "''s1''"
        and sd = sample_session and qid = "''ENT_001''" and now = "''t2''" and a = "VInt 5"]
    by (simp add: index)
qed

section \<open>Scoring one answer\<close>



text \<open>
  Claim C5, as stated, fails on \<^verbatim>\<open>yes_no\<close> questions: the table is not looked up at the
  answer value. \<^verbatim>\<open>COMP_002\<close> answered \<^verbatim>\<open>"YES"\<close> scores 5, while its explicit table looked
  up at \<^verbatim>\<open>"YES"\<close> has no entry and would default to 0.
\<close>

theorem yes_no_lookup_counterexample:
  "q_type COMP_002 = ''yes_no''
   \<and> q_scoring COMP_002 = Some [(''yes'', 5), (''no'', 1)]
   \<and> dict_get [(''yes'', 5), (''no'', 1 :: real)] ''YES'' 0 = 0
   \<and> score_answer sample_builtins COMP_002 (VStr ''YES'') = Inr 5"
  by (simp add: bank_q_type bank_q_scoring score_answer_def dict_get_def str_lower_samples)

text \<open>
  Claim C5, amended. A \<^verbatim>\<open>multiple_choice\<close> question scores its explicit table (empty when
  it has none) at \<^verbatim>\<open>str(answer)\<close>, 0 when the key is absent. A \<^verbatim>\<open>yes_no\<close> question
  answered with a string scores its explicit table at the lower-cased answer, 0 when the
  key is absent, and the table \<open>{yes: 5, no: 0}\<close> takes the explicit table's place only when
  the question has none. \<^verbatim>\<open>COMP_002\<close> answered \<^verbatim>\<open>"no"\<close> scores 1.
\<close>

theorem choice_and_yes_no_scoring:
  "(q_type q = ''multiple_choice'' \<longrightarrow>
      score_answer py q v =
        Inr (dict_get (case q_scoring q of None \<Rightarrow> [] | Some t \<Rightarrow> t) (py_str py v) 0))
   \<and> (q_type q = ''yes_no'' \<longrightarrow>
      score_answer py q (VStr s) =
        Inr (dict_get (case q_scoring q of None \<Rightarrow> [(''yes'', 5), (''no'', 0)] | Some t \<Rightarrow> t)
               (str_lower s) 0))
   \<and> score_answer py COMP_002 (VStr ''no'') = Inr 1"
  by (simp add: score_answer_def Let_def bank_q_type bank_q_scoring dict_get_def str_lower_samples)

theorem choice_and_yes_no_scoring_witness:
  "q_type COMP_001 = ''multiple_choice''
   \<and> score_answer sample_builtins COMP_001 (VStr ''3_5_years'') = Inr 4
   \<and> score_answer sample_builtins COMP_001 (VInt 4) = Inr 0
   \<and> q_type MARKET_001 = ''yes_no''
   \<and> score_answer sample_builtins MARKET_001 (VStr ''Partial'') = Inr 3
   \<and> score_answer sample_builtins COMP_002 (VStr ''no'') = Inr 1"
proof -
  have lower: "str_lower ''Partial'' = ''partial''"
    by code_simp
  have digits: "str_of_int 4 = ''4''"
    by code_simp
  show ?thesis
    using choice_and_yes_no_scoring [of COMP_001 sample_builtins "VStr ''3_5_years''" "''x''"]
      choice_and_yes_no_scoring [of COMP_001 sample_builtins "VInt 4" "''x''"]
      choice_and_yes_no_scoring [of MARKET_001 sample_builtins "VNone" "''Partial''"]
    by (simp add: bank_q_type bank_q_scoring dict_get_def lower digits)
qed

section \<open>The aggregation loops and their closed forms\<close>

text \<open>
  The engine fills its dicts in loops; the lemmas of this section show that, for a list of
  dimensions without duplicates, the loops compute the specification's closed forms
  (\<open>spec_dimensions\<close>, \<open>spec_overall\<close>).
\<close>

lemma dict_set_fresh: "k \<notin> fst ` set d \<Longrightarrow> dict_set d k v = d @ [(k, v)]"
  unfolding dict_set_def by (induction d) auto

lemma init_scores_foldl:
  "distinct dims \<Longrightarrow> set dims \<inter> fst ` set acc = {} \<Longrightarrow>
     foldl (\<lambda>d dname. dict_set d dname z) acc dims = acc @
         map (\<lambda>dname. (dname, z)) dims"
proof (induction dims arbitrary: acc)
  case Nil
  then show ?case by simp
next
  case (Cons x xs)
  have fresh: "x \<notin> fst ` set acc" using Cons.prems by auto
  have "set xs \<inter> fst ` set (acc @ [(x, z)]) = {}" using Cons.prems by auto
  with Cons.IH [of "acc @ [(x, z)]"] Cons.prems fresh show ?case
    by (simp add: dict_set_fresh)
qed

lemma init_dimension_scores_distinct:
  "distinct dims \<Longrightarrow>
     init_dimension_scores dims = map (\<lambda>dname. (dname, \<lparr>raw_score = 0, count = 0\<rparr>)) dims"
  using init_scores_foldl [of dims "[]"] by (simp add: init_dimension_scores_def)

lemma add_score_Inr:
  assumes "add_score ds d s = Inr ds'"
  shows "map fst ds' = map fst ds"
    and "\<exists>a. map_of ds d = Some a \<and>
           map_of ds' = (map_of ds)(d \<mapsto> \<lparr>raw_score = raw_score a + s, count = count a + 1\<rparr>)"
proof -
  from assms obtain a where a: "map_of ds d = Some a"
    and ds': "ds' = AList.update d \<lparr>raw_score = raw_score a + s, count = count a + 1\<rparr> ds"
    by (auto simp: add_score_def dict_set_def split: option.splits)
  from a have "d \<in> set (map fst ds)" by (metis map_of_eq_None_iff option.distinct(1) set_map)
  then show "map fst ds' = map fst ds" by (simp add: ds' update_keys)
  show "\<exists>a. map_of ds d = Some a \<and>
           map_of ds' = (map_of ds)(d \<mapsto> \<lparr>raw_score = raw_score a + s, count = count a + 1\<rparr>)"
    using a ds' by (simp add: update_conv')
qed

lemma answered_questions_Cons:
  "answered_questions am (q # qs) d =
     (if q_dimension q = d \<and> am (q_id q) \<noteq> None then q # answered_questions am qs d
      else answered_questions am qs d)"
  by (simp add: answered_questions_def)

lemma raw_sum_Cons:
  "raw_sum py am (q # qs) d =
     (if q_dimension q = d \<and> am (q_id q) \<noteq> None then answer_score py am q + raw_sum py am qs d
      else raw_sum py am qs d)"
  by (auto simp add: raw_sum_def answered_questions_Cons)

lemma score_questions_Inr:
  "score_questions py am qs ds = Inr ds' \<Longrightarrow>
     map fst ds' = map fst ds \<and>
     (\<forall>d a. map_of ds d = Some a \<longrightarrow>
        map_of ds' d = Some \<lparr>raw_score = raw_score a + raw_sum py am qs d,
                            count = count a + length (answered_questions am qs d)\<rparr>)"
proof (induction qs arbitrary: ds)
  case Nil
  then show ?case by (simp add: raw_sum_def answered_questions_def)
next
  case (Cons q qs)
  show ?case
  proof (cases "am (q_id q)")
    case None
    with Cons.prems have "score_questions py am qs ds = Inr ds'" by simp
    from Cons.IH [OF this] None show ?thesis
      by (simp add: raw_sum_Cons answered_questions_Cons)
  next
    case (Some e)
    with Cons.prems obtain s ds1 where
      s: "score_answer py q (answer e) = Inr s" and
      ds1: "add_score ds (q_dimension q) s = Inr ds1" and
      rest: "score_questions py am qs ds1 = Inr ds'"
      by (auto split: sum.splits)
    from add_score_Inr [OF ds1] obtain a0 where
      keys: "map fst ds1 = map fst ds" and
      a0: "map_of ds (q_dimension q) = Some a0" and
      upd: "map_of ds1 = (map_of ds)(q_dimension q \<mapsto> \<lparr>raw_score = raw_score a0 + s, count = count a0 + 1\<rparr>)"
      by blast
    have sc: "answer_score py am q = s" using Some s by (simp add: answer_score_def)
    from Cons.IH [OF rest] have
      k: "map fst ds' = map fst ds1" and
      v: "\<And>d a. map_of ds1 d = Some a \<Longrightarrow>
            map_of ds' d = Some \<lparr>raw_score = raw_score a + raw_sum py am qs d,
                                count = count a + length (answered_questions am qs d)\<rparr>"
      by blast+
    show ?thesis
    proof (intro conjI allI impI)
      show "map fst ds' = map fst ds" using k keys by simp
    next
      fix d a assume da: "map_of ds d = Some a"
      show "map_of ds' d = Some \<lparr>raw_score = raw_score a + raw_sum py am (q # qs) d,
                                 count = count a + length (answered_questions am (q # qs) d)\<rparr>"
      proof (cases "q_dimension q = d")
        case True
        then have "map_of ds1 d = Some \<lparr>raw_score = raw_score a0 + s, count = count a0 + 1\<rparr>"
          using upd by simp
        from v [OF this] True da a0 Some sc show ?thesis
          by (simp add: raw_sum_Cons answered_questions_Cons)
      next
        case False
        then have "map_of ds1 d = Some a" using upd da by simp
        from v [OF this] False show ?thesis
          by (simp add: raw_sum_Cons answered_questions_Cons)
      qed
    qed
  qed
qed

lemma alist_from_keys:
  "distinct (map fst xs) \<Longrightarrow> xs = map (\<lambda>k. (k, the (map_of xs k))) (map fst xs)"
proof (induction xs)
  case Nil
  then show ?case by simp
next
  case (Cons p ps)
  obtain k v where p: "p = (k, v)" by (cases p)
  from Cons.prems p have notin: "k \<notin> fst ` set ps" and d: "distinct (map fst ps)" by auto
  have "map (\<lambda>x. (x, the (map_of (p # ps) x))) (map fst ps) = map (\<lambda>x. (x, the (map_of ps x))) (map fst ps)"
    using notin p by (intro map_cong) auto
  with Cons.IH [OF d] p show ?case by simp
qed

lemma score_questions_from_init:
  assumes "distinct dims"
    and "score_questions py am qs (init_dimension_scores dims) = Inr ds'"
  shows "ds' = map (\<lambda>d. (d, \<lparr>raw_score = raw_sum py am qs d,
                              count = length (answered_questions am qs d)\<rparr>)) dims"
proof -
  let ?init = "map (\<lambda>dname. (dname, \<lparr>raw_score = 0, count = 0\<rparr>)) dims"
  have init: "init_dimension_scores dims = ?init"
    by (rule init_dimension_scores_distinct [OF assms(1)])
  have keys0: "map fst ?init = dims" by (simp add: comp_def)
  from score_questions_Inr [OF assms(2) [unfolded init]] have
    keys: "map fst ds' = dims" and
    vals: "\<And>d a. map_of ?init d = Some a \<Longrightarrow>
            map_of ds' d = Some \<lparr>raw_score = raw_score a + raw_sum py am qs d,
                                count = count a + length (answered_questions am qs d)\<rparr>"
    using keys0 by auto
  have look: "map_of ?init d = Some \<lparr>raw_score = 0, count = 0\<rparr>" if "d \<in> set dims" for d
    using that by (induction dims) auto
  have val: "map_of ds' d = Some \<lparr>raw_score = raw_sum py am qs d,
                                   count = length (answered_questions am qs d)\<rparr>"
    if "d \<in> set dims" for d
    using vals [OF look [OF that]] by simp
  have "distinct (map fst ds')" using keys assms(1) by simp
  from alist_from_keys [OF this] have "ds' = map (\<lambda>k. (k, the (map_of ds' k))) dims"
    using keys by simp
  also have "\<dots> = map (\<lambda>d. (d, \<lparr>raw_score = raw_sum py am qs d,
                              count = length (answered_questions am qs d)\<rparr>)) dims"
    by (intro map_cong) (auto simp: val)
  finally show ?thesis .
qed

lemma normalize_dimensions_append:
  "distinct (map fst ds) \<Longrightarrow> fst ` set acc \<inter> fst ` set ds = {} \<Longrightarrow>
     normalize_dimensions ds acc =
       acc @
           map (\<lambda>(d, a). (d, \<lparr>score = py_round1 (raw_score a / real (count a) * 20),
                                  level = get_level (raw_score a / real (count a)),
                                  interpretation_text = get_interpretation d (raw_score a / real (count a))\<rparr>))
               (filter (\<lambda>(d, a). count a > 0) ds)"
proof (induction ds arbitrary: acc)
  case Nil
  then show ?case by simp
next
  case (Cons p ds)
  obtain d a where p: "p = (d, a)" by (cases p)
  from Cons.prems p have fresh: "d \<notin> fst ` set acc" and dist: "distinct (map fst ds)"
    and dnot: "d \<notin> fst ` set ds" and disj: "fst ` set acc \<inter> fst ` set ds = {}"
    by auto
  show ?case
  proof (cases "count a > 0")
    case True
    let ?e = "\<lparr>score = py_round1 (raw_score a / real (count a) * 20),
              level = get_level (raw_score a / real (count a)),
              interpretation_text = get_interpretation d (raw_score a / real (count a))\<rparr>"
    have "fst ` set (acc @ [(d, ?e)]) \<inter> fst ` set ds = {}" using disj dnot by auto
    from Cons.IH [OF dist this] True p fresh show ?thesis
      by (simp add: Let_def dict_set_fresh)
  next
    case False
    with Cons.IH [OF dist disj] p show ?thesis by simp
  qed
qed

lemma normalize_scored:
  "distinct dims \<Longrightarrow>
   normalize_dimensions
     (map (\<lambda>d. (d, \<lparr>raw_score = raw_sum py am qs d, count = length (answered_questions am qs d)\<rparr>)) dims) []
   = spec_dimensions py am qs dims"
proof -
  assume d: "distinct dims"
  let ?ds = "map (\<lambda>d. (d, \<lparr>raw_score = raw_sum py am qs d, count = length (answered_questions am qs d)\<rparr>)) dims"
  have "distinct (map fst ?ds)" using d by (simp add: comp_def)
  from normalize_dimensions_append [OF this, of "[]"] show ?thesis
    by (simp add: spec_dimensions_def spec_dimension_entry_def raw_average_def filter_map comp_def)
qed

lemma calculate_results_Inr:
  assumes "distinct (self_dimensions self)"
    and "calculate_results py self sd = Inr r"
  shows "dimensions r = spec_dimensions py (answers sd) (question_bank self) (self_dimensions self)"
    and "overall_score r = calculate_overall_score (dimensions r)"
    and "readiness_level r = get_readiness_level (overall_score r)"
    and "recommendations r = generate_recommendations (dimensions r) (overall_score r)"
    and "next_steps r = generate_next_steps (readiness_level r) (dimensions r)"
proof -
  from assms(2) obtain ds where
    ds: "score_questions py (answers sd) (question_bank self) (init_dimension_scores (self_dimensions self)) = Inr ds"
    and r: "r = \<lparr>overall_score = calculate_overall_score (normalize_dimensions ds []),
                 readiness_level = get_readiness_level (calculate_overall_score (normalize_dimensions ds [])),
                 dimensions = normalize_dimensions ds [],
                 recommendations = generate_recommendations (normalize_dimensions ds [])
                                      (calculate_overall_score (normalize_dimensions ds [])),
                 next_steps = generate_next_steps
                                (get_readiness_level (calculate_overall_score (normalize_dimensions ds [])))
                                (normalize_dimensions ds [])\<rparr>"
    by (auto simp: calculate_results_def Let_def split: sum.splits)
  from score_questions_from_init [OF assms(1) ds] normalize_scored [OF assms(1)]
  have "normalize_dimensions ds [] = spec_dimensions py (answers sd) (question_bank self) (self_dimensions self)"
    by simp
  with r show "dimensions r = spec_dimensions py (answers sd) (question_bank self) (self_dimensions self)"
    by simp
  show "overall_score r = calculate_overall_score (dimensions r)"
    "readiness_level r = get_readiness_level (overall_score r)"
    "recommendations r = generate_recommendations (dimensions r) (overall_score r)"
    "next_steps r = generate_next_steps (readiness_level r) (dimensions r)"
    using r by simp_all
qed

lemma weighted_sums_sum:
  "weighted_sums dims ws tw =
     (ws + sum_list (map (\<lambda>(d, x). weight_of d * score x) dims),
      tw + sum_list (map (\<lambda>(d, x). weight_of d) dims))"
  by (induction dims arbitrary: ws tw)
     (auto simp: weight_of_def dict_get_def split: option.splits)

lemma weight_of_values:
  "weight_of Unternehmerische_Persoenlichkeit = 20 / 100"
  "weight_of Fachkompetenz = 25 / 100"
  "weight_of Marktverstaendnis = 25 / 100"
  "weight_of Finanzplanung = 20 / 100"
  "weight_of Umsetzungsreife = 10 / 100"
  using dimension_names_distinct
  by (auto simp add: weight_of_def dict_get_def weights_def DIMENSIONS_def)

lemma weight_of_pos: "d \<in> set DIMENSIONS \<Longrightarrow> 0 < weight_of d"
  by (auto simp: DIMENSIONS_def weight_of_values)

lemma weight_of_nonneg: "0 \<le> weight_of d"
  by (auto simp: weight_of_def dict_get_def weights_def)

lemma total_weight_pos:
  "dims \<noteq> [] \<Longrightarrow> fst ` set dims \<subseteq> set DIMENSIONS \<Longrightarrow>
     0 < sum_list (map (\<lambda>(d, x). weight_of d) dims)"
proof (induction dims)
  case Nil
  then show ?case by simp
next
  case (Cons p ps)
  obtain d x where p: "p = (d, x)" by (cases p)
  have "0 \<le> sum_list (map (\<lambda>(d, x). weight_of d) ps)"
    by (intro sum_list_nonneg) (auto simp: weight_of_nonneg)
  moreover have "0 < weight_of d" using Cons.prems p by (auto intro: weight_of_pos)
  ultimately show ?case using p by simp
qed

lemma py_round1_0: "py_round1 0 = 0"
  by (simp add: py_round1_def)

lemma calculate_overall_score_spec:
  "fst ` set dims \<subseteq> set DIMENSIONS \<Longrightarrow> calculate_overall_score dims = spec_overall dims"
proof (cases "dims = []")
  case True
  then show ?thesis by (simp add: calculate_overall_score_def spec_overall_def py_round1_0)
next
  case False
  assume "fst ` set dims \<subseteq> set DIMENSIONS"
  from total_weight_pos [OF False this] False show ?thesis
    by (simp add: calculate_overall_score_def spec_overall_def weighted_sums_sum)
qed

lemma spec_dimensions_keys:
  "map fst (spec_dimensions py am qs dims) = filter (\<lambda>d. answered_questions am qs d \<noteq> []) dims"
  by (simp add: spec_dimensions_def comp_def)

lemma score_questions_cong:
  "(\<And>q. q \<in> set qs \<Longrightarrow> map_option answer (am1 (q_id q)) = map_option answer (am2 (q_id q))) \<Longrightarrow>
     score_questions py am1 qs ds = score_questions py am2 qs ds"
proof (induction qs arbitrary: ds)
  case Nil
  then show ?case by simp
next
  case (Cons q qs)
  have head: "map_option answer (am1 (q_id q)) = map_option answer (am2 (q_id q))"
    using Cons.prems by simp
  have tail: "score_questions py am1 qs ds' = score_questions py am2 qs ds'" for ds'
    using Cons.IH Cons.prems by simp
  show ?case
    using head tail by (cases "am1 (q_id q)"; cases "am2 (q_id q)") (auto split: sum.splits)
qed

lemma engine_fields:
  "question_bank assessment_engine = get_question_bank"
  "self_dimensions assessment_engine = DIMENSIONS"
  by (simp_all add: assessment_engine_def AssessmentEngine_init_def)

lemma names_neq:
  "Unternehmerische_Persoenlichkeit \<noteq> Fachkompetenz"
  "Unternehmerische_Persoenlichkeit \<noteq> Marktverstaendnis"
  "Unternehmerische_Persoenlichkeit \<noteq> Finanzplanung"
  "Unternehmerische_Persoenlichkeit \<noteq> Umsetzungsreife"
  "Fachkompetenz \<noteq> Marktverstaendnis"
  "Fachkompetenz \<noteq> Finanzplanung"
  "Fachkompetenz \<noteq> Umsetzungsreife"
  "Marktverstaendnis \<noteq> Finanzplanung"
  "Marktverstaendnis \<noteq> Umsetzungsreife"
  "Finanzplanung \<noteq> Umsetzungsreife"
  using dimension_names_distinct by (simp_all add: DIMENSIONS_def)

lemma init_DIMENSIONS:
  "init_dimension_scores DIMENSIONS =
     [(Unternehmerische_Persoenlichkeit, \<lparr>raw_score = 0, count = 0\<rparr>),
      (Fachkompetenz, \<lparr>raw_score = 0, count = 0\<rparr>),
      (Marktverstaendnis, \<lparr>raw_score = 0, count = 0\<rparr>),
      (Finanzplanung, \<lparr>raw_score = 0, count = 0\<rparr>),
      (Umsetzungsreife, \<lparr>raw_score = 0, count = 0\<rparr>)]"
  using init_dimension_scores_distinct [OF dimension_names_distinct] by (simp add: DIMENSIONS_def)

section \<open>\<^verbatim>\<open>calculate_results\<close> on the concrete bank\<close>


lemma answered_questions_unanswered:
  "(\<And>q. q \<in> set qs \<Longrightarrow> am (q_id q) = None) \<Longrightarrow> answered_questions am qs d = []"
  by (auto simp: answered_questions_def filter_empty_conv)


lemma spec_dimensions_subset: "fst ` set (spec_dimensions py am qs dims) \<subseteq> set dims"
  by (auto simp: spec_dimensions_def)

lemma sample_scores:
  "score_questions sample_builtins (answers sample_session) get_question_bank
     (init_dimension_scores DIMENSIONS) =
   Inr [(Unternehmerische_Persoenlichkeit, \<lparr>raw_score = 3, count = 1\<rparr>),
        (Fachkompetenz, \<lparr>raw_score = 0, count = 0\<rparr>),
        (Marktverstaendnis, \<lparr>raw_score = 0, count = 0\<rparr>),
        (Finanzplanung, \<lparr>raw_score = 0, count = 0\<rparr>),
        (Umsetzungsreife, \<lparr>raw_score = 0, count = 0\<rparr>)]"
  using names_neq names_neq [symmetric]
  by (simp add: init_DIMENSIONS get_question_bank_def sample_session_def
        bank_q_id bank_q_type bank_q_dimension score_answer_def add_score_def dict_set_def
        float_overflow_small)

lemma sample_overall:
  "map_sum id overall_score (calculate_results sample_builtins assessment_engine sample_session) = Inr 60"
  using names_neq names_neq [symmetric]
  by (simp add: calculate_results_def engine_fields sample_scores Let_def dict_set_def
        calculate_overall_score_def weights_def py_round1_def)

lemma sample_dimensions:
  "map_sum id (\<lambda>r. map (\<lambda>(d, x). (d, score x)) (dimensions r))
     (calculate_results sample_builtins assessment_engine sample_session) =
   Inr [(Unternehmerische_Persoenlichkeit, 60)]"
  by (simp add: calculate_results_def engine_fields sample_scores Let_def dict_set_def
        py_round1_def)

lemma result_dimensions_distinct:
  assumes "calculate_results py assessment_engine sd = Inr r"
  shows "distinct (map fst (dimensions r))"
proof -
  have dist: "distinct (self_dimensions assessment_engine)"
    by (simp add: engine_fields dimension_names_distinct)
  have "map fst (dimensions r) =
          filter (\<lambda>d. answered_questions (answers sd) get_question_bank d \<noteq> []) DIMENSIONS"
    using calculate_results_Inr(1) [OF dist assms] by (simp add: engine_fields spec_dimensions_keys)
  then show ?thesis
    using dimension_names_distinct by simp
qed

section \<open>Readiness level, next steps and recommendations\<close>

text \<open>
  Claim C7. The readiness level of an overall score is the "Hoch" label exactly from 75
  up, the "Mittel" label exactly on [55, 75), the "Ausbaufaehig" label exactly on [35, 55)
  and the lowest label exactly below 35. The next steps computed from that label are the
  five fixed strings of the tier the label's substring selects ("Hoch", "Mittel", else the
  third list, which the two lower labels share), and they do not depend on the
  \<open>dimensions\<close> argument.
\<close>

theorem readiness_level_and_next_steps:
  "(get_readiness_level x = level_hoch \<longleftrightarrow> 75 \<le> x)
   \<and> (get_readiness_level x = level_mittel \<longleftrightarrow> 55 \<le> x \<and> x < 75)
   \<and> (get_readiness_level x = level_ausbaufaehig \<longleftrightarrow> 35 \<le> x \<and> x < 55)
   \<and> (get_readiness_level x = level_niedrig \<longleftrightarrow> x < 35)
   \<and> generate_next_steps (get_readiness_level x) dims =
        (if 75 \<le> x then steps_hoch else if 55 \<le> x then steps_mittel else steps_else)
   \<and> length (generate_next_steps (get_readiness_level x) dims) = 5
   \<and> generate_next_steps lvl dims = generate_next_steps lvl dims'"
  using levels_distinct levels_distinct [symmetric]
  by (simp add: get_readiness_level_def generate_next_steps_def contains_levels steps_length)

theorem readiness_level_and_next_steps_witness:
  "get_readiness_level 75 = level_hoch
   \<and> generate_next_steps (get_readiness_level 75) [] = steps_hoch
   \<and> get_readiness_level (749 / 10) = level_mittel
   \<and> generate_next_steps (get_readiness_level (749 / 10)) [] = steps_mittel
   \<and> get_readiness_level 35 = level_ausbaufaehig
   \<and> generate_next_steps (get_readiness_level 35) [] = steps_else
   \<and> get_readiness_level (349 / 10) = level_niedrig
   \<and> generate_next_steps (get_readiness_level (349 / 10)) [] = steps_else"
proof -
  have hoch: "get_readiness_level 75 = level_hoch
      \<and> generate_next_steps (get_readiness_level 75) [] = steps_hoch"
    using readiness_level_and_next_steps [of 75 "[]" level_hoch "[]", simplified] by blast
  have mittel: "get_readiness_level (749 / 10) = level_mittel
      \<and> generate_next_steps (get_readiness_level (749 / 10)) [] = steps_mittel"
    using readiness_level_and_next_steps [of "749 / 10" "[]" level_hoch "[]", simplified] by blast
  have ausbau: "get_readiness_level 35 = level_ausbaufaehig
      \<and> generate_next_steps (get_readiness_level 35) [] = steps_else"
    using readiness_level_and_next_steps [of 35 "[]" level_hoch "[]", simplified] by blast
  have niedrig: "get_readiness_level (349 / 10) = level_niedrig
      \<and> generate_next_steps (get_readiness_level (349 / 10)) [] = steps_else"
    using readiness_level_and_next_steps [of "349 / 10" "[]" level_hoch "[]", simplified] by blast
  show ?thesis
    using hoch mittel ausbau niedrig by blast
qed

lemma weak_distinct:
  "distinct (map fst dims) \<Longrightarrow>
     dname \<in> set (map fst (filter (\<lambda>(d, data). score data < 60) dims)) \<longleftrightarrow> weak dims dname"
  by (induction dims) (auto simp: weak_def split: option.splits)

lemma recs_distinct:
  "rec_excellent \<noteq> rec_finanzplanung" "rec_excellent \<noteq> rec_marktverstaendnis"
  "rec_excellent \<noteq> rec_fachkompetenz" "rec_excellent \<noteq> rec_umsetzungsreife"
  "rec_excellent \<noteq> rec_general"
  by (simp_all add: rec_excellent_def rec_finanzplanung_def rec_marktverstaendnis_def
        rec_fachkompetenz_def rec_umsetzungsreife_def rec_general_def)

text \<open>
  Claim C6. For a per-dimension output (a dict, so no key occurs twice) and an overall
  score, the recommendations are the first five entries of: the "excellent preparation"
  message if the overall score is at least 75; then the messages of Finanzplanung,
  Marktverstaendnis, Fachkompetenz and Umsetzungsreife, in this order, for those of them
  that have an entry with a normalized score below 60; then the general closing message.
  So the list has at most five entries (and at least one), and its first entry is the
  "excellent preparation" message exactly when the overall score is at least 75. The
  recommendations of every result of \<open>calculate_results\<close> are this list for the result's
  own per-dimension output and overall score.
\<close>

theorem recommendations_order_and_cap:
  "(distinct (map fst dims) \<longrightarrow>
      generate_recommendations dims overall = spec_recommendations dims overall
      \<and> length (generate_recommendations dims overall) \<le> 5
      \<and> generate_recommendations dims overall \<noteq> []
      \<and> (hd (generate_recommendations dims overall) = rec_excellent \<longleftrightarrow> 75 \<le> overall))
   \<and> (calculate_results py assessment_engine sd = Inr r \<longrightarrow>
      recommendations r = spec_recommendations (dimensions r) (overall_score r)
      \<and> length (recommendations r) \<le> 5)"
proof -
  have general: "generate_recommendations ds ov = spec_recommendations ds ov
      \<and> length (generate_recommendations ds ov) \<le> 5
      \<and> generate_recommendations ds ov \<noteq> []
      \<and> (hd (generate_recommendations ds ov) = rec_excellent \<longleftrightarrow> 75 \<le> ov)"
    if d: "distinct (map fst ds)" for ds ov
  proof -
    have same: "generate_recommendations ds ov = spec_recommendations ds ov"
      unfolding generate_recommendations_def spec_recommendations_def Let_def
        weak_distinct [OF d]
      by simp
    have short: "length (spec_recommendations ds ov) \<le> 5"
      by (simp add: spec_recommendations_def)
    have some: "spec_recommendations ds ov \<noteq> []"
      by (simp add: spec_recommendations_def)
    have first: "hd (spec_recommendations ds ov) = rec_excellent \<longleftrightarrow> 75 \<le> ov"
      using recs_distinct recs_distinct [symmetric]
      by (simp add: spec_recommendations_def)
    show ?thesis
      using same short some first by simp
  qed
  have of_result: "recommendations r = spec_recommendations (dimensions r) (overall_score r)
      \<and> length (recommendations r) \<le> 5"
    if ok: "calculate_results py assessment_engine sd = Inr r"
  proof -
    have dist: "distinct (self_dimensions assessment_engine)"
      by (simp add: engine_fields dimension_names_distinct)
    have made: "recommendations r = generate_recommendations (dimensions r) (overall_score r)"
      by (rule calculate_results_Inr(4) [OF dist ok])
    note g = general [OF result_dimensions_distinct [OF ok], of "overall_score r"]
    have "generate_recommendations (dimensions r) (overall_score r) =
            spec_recommendations (dimensions r) (overall_score r)"
      and "length (generate_recommendations (dimensions r) (overall_score r)) \<le> 5"
      using g by blast+
    then show ?thesis
      by (simp add: made)
  qed
  show ?thesis
    using general of_result by blast
qed

theorem recommendations_order_and_cap_witness:
  "distinct (map fst two_dims)
   \<and> generate_recommendations two_dims 80 = [rec_excellent, rec_finanzplanung, rec_general]
   \<and> generate_recommendations two_dims 60 = [rec_finanzplanung, rec_general]
   \<and> distinct (map fst all_weak)
   \<and> generate_recommendations all_weak 90 =
       [rec_excellent, rec_finanzplanung, rec_marktverstaendnis, rec_fachkompetenz, rec_umsetzungsreife]
   \<and> map_sum id recommendations
       (calculate_results sample_builtins assessment_engine sample_session) = Inr [rec_general]"
proof -
  have d2: "distinct (map fst two_dims)"
    using names_neq by (simp add: two_dims_def)
  have d5: "distinct (map fst all_weak)"
    using names_neq by (simp add: all_weak_def)
  have w2: "weak two_dims Finanzplanung" "\<not> weak two_dims Fachkompetenz"
    "\<not> weak two_dims Marktverstaendnis" "\<not> weak two_dims Umsetzungsreife"
    using names_neq names_neq [symmetric] by (simp_all add: weak_def two_dims_def)
  have w5: "weak all_weak Finanzplanung" "weak all_weak Fachkompetenz"
    "weak all_weak Marktverstaendnis" "weak all_weak Umsetzungsreife"
    using names_neq names_neq [symmetric] by (simp_all add: weak_def all_weak_def)
  obtain r where r: "calculate_results sample_builtins assessment_engine sample_session = Inr r"
    using sample_overall
    by (cases "calculate_results sample_builtins assessment_engine sample_session") auto
  have ov: "overall_score r = 60"
    using sample_overall r by simp
  have keys: "map fst (dimensions r) = [Unternehmerische_Persoenlichkeit]"
  proof -
    have "map fst (map (\<lambda>(d, x). (d, score x)) (dimensions r)) = [Unternehmerische_Persoenlichkeit]"
      using sample_dimensions r by simp
    then show ?thesis by (simp add: comp_def case_prod_unfold)
  qed
  have absent: "map_of (dimensions r) d = None" if "d \<noteq> Unternehmerische_Persoenlichkeit" for d
  proof -
    have "d \<notin> fst ` set (dimensions r)"
      using keys that by (metis empty_iff empty_set image_set set_ConsD)
    then show ?thesis by (simp add: map_of_eq_None_iff)
  qed
  have wr: "\<not> weak (dimensions r) Finanzplanung" "\<not> weak (dimensions r) Fachkompetenz"
    "\<not> weak (dimensions r) Marktverstaendnis" "\<not> weak (dimensions r) Umsetzungsreife"
    using names_neq names_neq [symmetric] by (simp_all add: weak_def absent)
  have "recommendations r = [rec_general]"
    using recommendations_order_and_cap [of two_dims 80 sample_builtins sample_session r] r ov wr
    by (simp add: spec_recommendations_def)
  then show ?thesis
    using d2 d5 r recommendations_order_and_cap [of two_dims 80 sample_builtins sample_session r]
      recommendations_order_and_cap [of two_dims 60 sample_builtins sample_session r]
      recommendations_order_and_cap [of all_weak 90 sample_builtins sample_session r]
    by (simp add: spec_recommendations_def w2 w5)
qed

section \<open>What a result depends on, and its overall score\<close>

text \<open>
  Claim C9. When the answer maps of two sessions agree on the id of every question of the
  bank, \<open>calculate_results\<close> gives the same outcome for both (the same result, or the
  same exception), and the loop over the bank already gives the same per-dimension sums
  and counts from any starting accumulator: an entry stored under an id that is no
  question of the bank is never read.
\<close>

theorem results_ignore_stray_answers:
  assumes "\<forall>q \<in> set get_question_bank. answers s1 (q_id q) = answers s2 (q_id q)"
  shows "calculate_results py assessment_engine s1 = calculate_results py assessment_engine s2
       \<and> score_questions py (answers s1) get_question_bank ds =
           score_questions py (answers s2) get_question_bank ds"
proof -
  have "score_questions py (answers s1) get_question_bank ds' =
        score_questions py (answers s2) get_question_bank ds'" for ds'
    using assms by (intro score_questions_cong) simp
  then show ?thesis
    by (simp add: calculate_results_def engine_fields)
qed

theorem results_ignore_stray_answers_witness:
  "calculate_results sample_builtins assessment_engine stray_session =
     calculate_results sample_builtins assessment_engine sample_session
   \<and> map_sum id overall_score (calculate_results sample_builtins assessment_engine stray_session) = Inr 60
   \<and> answers stray_session ''NO_SUCH_QUESTION'' \<noteq> answers sample_session ''NO_SUCH_QUESTION''"
proof -
  have agree: "\<forall>q \<in> set get_question_bank. answers stray_session (q_id q) = answers sample_session (q_id q)"
    by (simp add: get_question_bank_def bank_q_id stray_session_def)
  have differ: "answers stray_session ''NO_SUCH_QUESTION'' \<noteq> answers sample_session ''NO_SUCH_QUESTION''"
    by (simp add: stray_session_def sample_session_def)
  show ?thesis
    using results_ignore_stray_answers [OF agree, of sample_builtins] sample_overall differ by simp
qed



section \<open>Per-dimension scores and the range of the scores\<close>

text \<open>
  The per-dimension output of a result, entry by entry: a dimension without an answered
  question has no entry, and a dimension with one has the entry whose normalized score is
  the raw average times 20, rounded to one decimal.
\<close>

lemma dimension_entries:
  assumes "calculate_results py assessment_engine sd = Inr r"
    and "d \<in> set DIMENSIONS"
  shows "map_of (dimensions r) d =
           (if answered_questions (answers sd) get_question_bank d = [] then None
            else Some (spec_dimension_entry py (answers sd) get_question_bank d))"
proof -
  have dist: "distinct (self_dimensions assessment_engine)"
    by (simp add: engine_fields dimension_names_distinct)
  have dims: "dimensions r = spec_dimensions py (answers sd) get_question_bank DIMENSIONS"
    using calculate_results_Inr(1) [OF dist assms(1)] by (simp add: engine_fields)
  have "map_of (spec_dimensions py am qs ds) d =
          (if d \<in> set ds \<and> answered_questions am qs d \<noteq> [] then Some (spec_dimension_entry py am qs d)
           else None)" for am qs ds
    by (induction ds) (auto simp: spec_dimensions_def)
  with dims assms(2) show ?thesis by simp
qed

lemma likert7_scores:
  "score_questions sample_builtins (answers likert7_session) get_question_bank
     (init_dimension_scores DIMENSIONS) =
   Inr [(Unternehmerische_Persoenlichkeit, \<lparr>raw_score = 7, count = 1\<rparr>),
        (Fachkompetenz, \<lparr>raw_score = 0, count = 0\<rparr>),
        (Marktverstaendnis, \<lparr>raw_score = 0, count = 0\<rparr>),
        (Finanzplanung, \<lparr>raw_score = 0, count = 0\<rparr>),
        (Umsetzungsreife, \<lparr>raw_score = 0, count = 0\<rparr>)]"
  using names_neq names_neq [symmetric]
  by (simp add: init_DIMENSIONS get_question_bank_def likert7_session_def
        bank_q_id bank_q_type bank_q_dimension score_answer_def add_score_def dict_set_def
        float_overflow_small)

lemma likert7_raw_average:
  "raw_average sample_builtins (answers likert7_session) get_question_bank
     Unternehmerische_Persoenlichkeit = 7"
  using names_neq names_neq [symmetric]
  by (simp add: raw_average_def raw_sum_def answered_questions_def answer_score_def
        get_question_bank_def likert7_session_def bank_q_id bank_q_type bank_q_dimension
        score_answer_def float_overflow_small)

lemma likert7_dimensions:
  "map_sum id (\<lambda>r. map (\<lambda>(d, x). (d, score x)) (dimensions r))
     (calculate_results sample_builtins assessment_engine likert7_session) =
   Inr [(Unternehmerische_Persoenlichkeit, 140)]"
  by (simp add: calculate_results_def engine_fields likert7_scores Let_def dict_set_def
        py_round1_def)

lemma likert7_overall:
  "map_sum id overall_score
     (calculate_results sample_builtins assessment_engine likert7_session) = Inr 140"
  using names_neq names_neq [symmetric]
  by (simp add: calculate_results_def engine_fields likert7_scores Let_def dict_set_def
        calculate_overall_score_def weights_def py_round1_def)

text \<open>
  The range of the scores. Rounding to one decimal keeps a value between two multiples of
  one tenth; an average of values in [0, 5] is in [0, 5]; a weighted mean of values in
  [0, 100] is in [0, 100]. Every table of the bank scores in [0, 5], so the scores of a result
  are in range as soon as the likert answers are. \<open>calculate_results\<close> returns a result
  whenever every answered question can be scored.
\<close>

lemma py_round1_cases:
  "py_round1 x = of_int \<lfloor>x * 10\<rfloor> / 10 \<or>
   (py_round1 x = of_int (\<lfloor>x * 10\<rfloor> + 1) / 10 \<and> of_int \<lfloor>x * 10\<rfloor> < x * 10)"
  by (auto simp: py_round1_def Let_def)

lemma py_round1_lower:
  assumes "of_int k / 10 \<le> x"
  shows "of_int k / 10 \<le> py_round1 x"
proof -
  from assms have "of_int k \<le> x * 10" by simp
  then have "k \<le> \<lfloor>x * 10\<rfloor>" by (simp add: le_floor_iff)
  then have "(of_int k :: real) \<le> of_int \<lfloor>x * 10\<rfloor>" by simp
  then show ?thesis using py_round1_cases [of x] by (auto simp: divide_right_mono)
qed

lemma py_round1_upper:
  assumes "x \<le> of_int k / 10"
  shows "py_round1 x \<le> of_int k / 10"
proof -
  from assms have le: "x * 10 \<le> of_int k" by simp
  have f: "of_int \<lfloor>x * 10\<rfloor> \<le> (of_int k :: real)"
    using le by (meson floor_mono of_int_floor_le order_trans)
  from py_round1_cases [of x] show ?thesis
  proof
    assume "py_round1 x = of_int \<lfloor>x * 10\<rfloor> / 10"
    with f show ?thesis by (simp add: divide_right_mono)
  next
    assume a: "py_round1 x = of_int (\<lfloor>x * 10\<rfloor> + 1) / 10 \<and> of_int \<lfloor>x * 10\<rfloor> < x * 10"
    then have "of_int \<lfloor>x * 10\<rfloor> < (of_int k :: real)" using le by linarith
    then have "\<lfloor>x * 10\<rfloor> < k" by simp
    then have "\<lfloor>x * 10\<rfloor> + 1 \<le> k" by simp
    then have "(of_int (\<lfloor>x * 10\<rfloor> + 1) :: real) \<le> of_int k" by (simp only: of_int_le_iff)
    with a show ?thesis by (simp add: divide_right_mono)
  qed
qed

lemma py_round1_range:
  assumes "0 \<le> x" and "x \<le> 100"
  shows "0 \<le> py_round1 x \<and> py_round1 x \<le> 100"
  using py_round1_lower [of 0 x] py_round1_upper [of x 1000] assms by simp

lemma sum_list_bounds:
  assumes "\<And>x. x \<in> set xs \<Longrightarrow> 0 \<le> f x \<and> f x \<le> (c :: real)"
  shows "0 \<le> sum_list (map f xs) \<and> sum_list (map f xs) \<le> c * real (length xs)"
  using assms
proof (induction xs)
  case Nil
  then show ?case by simp
next
  case (Cons a xs)
  then have "0 \<le> f a \<and> f a \<le> c" and "0 \<le> sum_list (map f xs) \<and> sum_list (map f xs) \<le> c * real (length xs)"
    by simp_all
  then show ?case by (simp add: algebra_simps)
qed

lemma raw_average_range:
  assumes "answered_questions am qs d \<noteq> []"
    and "\<And>q. q \<in> set (answered_questions am qs d) \<Longrightarrow> 0 \<le> answer_score py am q \<and> answer_score py am q \<le> 5"
  shows "0 \<le> raw_average py am qs d \<and> raw_average py am qs d \<le> 5"
proof -
  let ?xs = "answered_questions am qs d"
  have n: "0 < real (length ?xs)" using assms(1) by simp
  from sum_list_bounds [of ?xs "answer_score py am" 5] assms(2)
  have "0 \<le> raw_sum py am qs d" and "raw_sum py am qs d \<le> 5 * real (length ?xs)"
    by (auto simp: raw_sum_def)
  then show ?thesis using n by (simp add: raw_average_def divide_le_eq)
qed

lemma weighted_mean_range:
  assumes "\<And>d x. (d, x) \<in> set dims \<Longrightarrow> 0 \<le> score x \<and> score x \<le> 100"
    and "0 < sum_list (map (\<lambda>(d, x). weight_of d) dims)"
  shows "0 \<le> sum_list (map (\<lambda>(d, x). weight_of d * score x) dims) / sum_list (map (\<lambda>(d, x). weight_of d) dims)
       \<and> sum_list (map (\<lambda>(d, x). weight_of d * score x) dims) / sum_list (map (\<lambda>(d, x). weight_of d) dims) \<le> 100"
proof -
  have "0 \<le> sum_list (map (\<lambda>(d, x). weight_of d * score x) dims)
      \<and> sum_list (map (\<lambda>(d, x). weight_of d * score x) dims) \<le> 100 * sum_list (map (\<lambda>(d, x). weight_of d) dims)"
    using assms(1)
  proof (induction dims)
    case Nil
    then show ?case by simp
  next
    case (Cons p ps)
    obtain d x where p: "p = (d, x)" by (cases p)
    have x: "0 \<le> score x" "score x \<le> 100" using Cons.prems [of d x] p by simp_all
    have w: "0 \<le> weight_of d" by (rule weight_of_nonneg)
    have "0 \<le> weight_of d * score x" using w x by simp
    moreover have "weight_of d * score x \<le> 100 * weight_of d"
      using w x mult_left_mono [of "score x" 100 "weight_of d"] by (simp add: mult.commute)
    moreover have "0 \<le> sum_list (map (\<lambda>(d, x). weight_of d * score x) ps)
      \<and> sum_list (map (\<lambda>(d, x). weight_of d * score x) ps) \<le> 100 * sum_list (map (\<lambda>(d, x). weight_of d) ps)"
    proof (rule Cons.IH)
      fix d' x'
      assume "(d', x') \<in> set ps"
      then show "0 \<le> score x' \<and> score x' \<le> 100"
        using Cons.prems [of d' x'] by simp
    qed
    ultimately show ?case using p by simp
  qed
  then show ?thesis using assms(2) by (simp add: divide_le_eq)
qed

lemma table_scores_in_range:
  assumes "q \<in> set get_question_bank" and "q_type q \<noteq> ''likert''"
    and "score_answer py q v = Inr s"
  shows "0 \<le> s \<and> s \<le> 5"
proof -
  from assms(1) consider
    "q = ENT_001" | "q = ENT_002" | "q = ENT_003" | "q = COMP_001" | "q = COMP_002" | "q = COMP_003"
    | "q = MARKET_001" | "q = MARKET_002" | "q = MARKET_003" | "q = FIN_001" | "q = FIN_002"
    | "q = FIN_003" | "q = IMPL_001" | "q = IMPL_002" | "q = IMPL_003"
    by (auto simp: get_question_bank_def)
  then show ?thesis
    using assms(2,3)
    by cases
      (auto simp: bank_q_type bank_q_scoring score_answer_def dict_get_def
         split: if_splits sum.splits)
qed

lemma answer_score_in_range:
  assumes "likert_in_range py am" and "q \<in> set get_question_bank"
  shows "0 \<le> answer_score py am q \<and> answer_score py am q \<le> 5"
proof (cases "am (q_id q)")
  case None
  then show ?thesis by (simp add: answer_score_def)
next
  case (Some e)
  show ?thesis
  proof (cases "score_answer py q (answer e)")
    case (Inl err)
    with Some show ?thesis by (simp add: answer_score_def)
  next
    case (Inr s)
    have "0 \<le> s \<and> s \<le> 5"
    proof (cases "q_type q = ''likert''")
      case True
      then have "py_float py (answer e) = Inr s"
        using Inr by (simp add: score_answer_def)
      with assms True Some show ?thesis
        by (auto simp: likert_in_range_def list_all_iff)
    next
      case False
      from table_scores_in_range [OF assms(2) False Inr] show ?thesis .
    qed
    with Some Inr show ?thesis by (simp add: answer_score_def)
  qed
qed

lemma scores_in_range:
  assumes "calculate_results py assessment_engine sd = Inr r"
    and "likert_in_range py (answers sd)"
  shows "(\<forall>(d, x) \<in> set (dimensions r).
            0 \<le> raw_average py (answers sd) get_question_bank d
            \<and> raw_average py (answers sd) get_question_bank d \<le> 5
            \<and> 0 \<le> score x \<and> score x \<le> 100)
       \<and> 0 \<le> overall_score r \<and> overall_score r \<le> 100"
proof -
  have dist: "distinct (self_dimensions assessment_engine)"
    by (simp add: engine_fields dimension_names_distinct)
  have dims: "dimensions r = spec_dimensions py (answers sd) get_question_bank DIMENSIONS"
    using calculate_results_Inr(1) [OF dist assms(1)] by (simp add: engine_fields)
  have avg: "0 \<le> raw_average py (answers sd) get_question_bank d
      \<and> raw_average py (answers sd) get_question_bank d \<le> 5"
    if "answered_questions (answers sd) get_question_bank d \<noteq> []" for d
  proof (rule raw_average_range [OF that])
    fix q assume "q \<in> set (answered_questions (answers sd) get_question_bank d)"
    then have "q \<in> set get_question_bank" by (simp add: answered_questions_def)
    from answer_score_in_range [OF assms(2) this]
    show "0 \<le> answer_score py (answers sd) q \<and> answer_score py (answers sd) q \<le> 5" .
  qed
  have entry: "0 \<le> raw_average py (answers sd) get_question_bank d
      \<and> raw_average py (answers sd) get_question_bank d \<le> 5
      \<and> 0 \<le> score x \<and> score x \<le> 100"
    if "(d, x) \<in> set (dimensions r)" for d x
  proof -
    from that dims have ne: "answered_questions (answers sd) get_question_bank d \<noteq> []"
      and x: "x = spec_dimension_entry py (answers sd) get_question_bank d"
      by (auto simp: spec_dimensions_def)
    note a = avg [OF ne]
    have "0 \<le> raw_average py (answers sd) get_question_bank d * 20"
      and "raw_average py (answers sd) get_question_bank d * 20 \<le> 100"
      using a by simp_all
    from py_round1_range [OF this] a x show ?thesis
      by (simp add: spec_dimension_entry_def)
  qed
  have sub: "fst ` set (dimensions r) \<subseteq> set DIMENSIONS"
    unfolding dims by (rule spec_dimensions_subset)
  have ov: "overall_score r = spec_overall (dimensions r)"
    using calculate_results_Inr(2) [OF dist assms(1)] calculate_overall_score_spec [OF sub] by simp
  have "0 \<le> overall_score r \<and> overall_score r \<le> 100"
  proof (cases "dimensions r = []")
    case True
    then show ?thesis using ov by (simp add: spec_overall_def)
  next
    case False
    have pos: "0 < sum_list (map (\<lambda>(d, x). weight_of d) (dimensions r))"
      by (rule total_weight_pos [OF False sub])
    have "0 \<le> sum_list (map (\<lambda>(d, x). weight_of d * score x) (dimensions r)) /
               sum_list (map (\<lambda>(d, x). weight_of d) (dimensions r))
        \<and> sum_list (map (\<lambda>(d, x). weight_of d * score x) (dimensions r)) /
               sum_list (map (\<lambda>(d, x). weight_of d) (dimensions r)) \<le> 100"
      using entry by (intro weighted_mean_range [OF _ pos]) blast
    then show ?thesis
      using ov False py_round1_range by (simp add: spec_overall_def)
  qed
  with entry show ?thesis by blast
qed

lemma add_score_total:
  "d \<in> fst ` set ds \<Longrightarrow> \<exists>ds'. add_score ds d s = Inr ds' \<and> fst ` set ds' = fst ` set ds"
  by (auto simp: add_score_def dict_set_def dom_update split: option.splits
        dest: weak_map_of_SomeI map_of_SomeD)

lemma score_questions_total:
  assumes "\<And>q. q \<in> set qs \<Longrightarrow> q_dimension q \<in> fst ` set ds"
    and "\<And>q e. q \<in> set qs \<Longrightarrow> am (q_id q) = Some e \<Longrightarrow> \<exists>s. score_answer py q (answer e) = Inr s"
  shows "\<exists>ds'. score_questions py am qs ds = Inr ds'"
  using assms
proof (induction qs arbitrary: ds)
  case Nil
  then show ?case by simp
next
  case (Cons q qs)
  show ?case
  proof (cases "am (q_id q)")
    case None
    then show ?thesis using Cons.IH [of ds] Cons.prems by simp
  next
    case (Some e)
    from Cons.prems(2) [of q e] Some obtain s where s: "score_answer py q (answer e) = Inr s"
      by auto
    from add_score_total [of "q_dimension q" ds s] Cons.prems(1) [of q]
    obtain ds1 where ds1: "add_score ds (q_dimension q) s = Inr ds1"
      and keys: "fst ` set ds1 = fst ` set ds"
      by auto
    have "\<exists>ds'. score_questions py am qs ds1 = Inr ds'"
      using Cons.prems keys by (intro Cons.IH) auto
    then show ?thesis using Some s ds1 by simp
  qed
qed

lemma bank_dimensions: "q \<in> set get_question_bank \<Longrightarrow> q_dimension q \<in> set DIMENSIONS"
  by (auto simp: get_question_bank_def bank_q_dimension DIMENSIONS_def)

lemma calculate_results_total:
  assumes "\<And>q e. q \<in> set get_question_bank \<Longrightarrow> answers sd (q_id q) = Some e \<Longrightarrow>
             \<exists>s. score_answer py q (answer e) = Inr s"
  shows "\<exists>r. calculate_results py assessment_engine sd = Inr r"
proof -
  have keys: "fst ` set (init_dimension_scores DIMENSIONS) = set DIMENSIONS"
    by (simp add: init_dimension_scores_distinct [OF dimension_names_distinct] image_image)
  have "\<exists>ds'. score_questions py (answers sd) get_question_bank (init_dimension_scores DIMENSIONS) = Inr ds'"
    using assms by (intro score_questions_total) (auto simp: keys bank_dimensions)
  then show ?thesis
    by (auto simp: calculate_results_def engine_fields Let_def)
qed

text \<open>
  Claim C2 at a failing input. The normalized score is \<open>round(raw_average * 20, 1)\<close> and
  a dimension without answers has no entry (lemma \<open>dimension_entries\<close>), but the raw
  average is not confined to [0, 5]: \<open>score_answer\<close>, documented as returning a value on the
  0 to 5 scale, returns a likert answer as it is. With the single answer 7 on \<^verbatim>\<open>ENT_001\<close>
  the raw average of its dimension is 7 and its normalized score is 140.
\<close>

theorem likert_out_of_range_raw_average:
  "q_type ENT_001 = ''likert''
   \<and> score_answer sample_builtins ENT_001 (VInt 7) = Inr 7
   \<and> raw_average sample_builtins (answers likert7_session) get_question_bank
        Unternehmerische_Persoenlichkeit = 7
   \<and> \<not> (raw_average sample_builtins (answers likert7_session) get_question_bank
          Unternehmerische_Persoenlichkeit \<le> 5)
   \<and> map_sum id (\<lambda>r. map (\<lambda>(d, x). (d, score x)) (dimensions r))
        (calculate_results sample_builtins assessment_engine likert7_session) =
       Inr [(Unternehmerische_Persoenlichkeit, 140)]"
  by (simp add: likert7_raw_average likert7_dimensions bank_q_type score_answer_def
        float_overflow_small)

text \<open>
  Claim C4 at a failing input. For the same session, in which one dimension has an answered
  question, the overall score is 140, outside [0, 100].
\<close>

theorem likert_out_of_range_overall_score:
  "answers likert7_session ''ENT_001'' = Some \<lparr>answer = VInt 7, timestamp = ''t1''\<rparr>
   \<and> map_sum id overall_score
        (calculate_results sample_builtins assessment_engine likert7_session) = Inr 140
   \<and> \<not> (140 \<le> (100 :: real))"
proof -
  have stored: "answers likert7_session ''ENT_001'' = Some \<lparr>answer = VInt 7, timestamp = ''t1''\<rparr>"
    by (simp add: likert7_session_def)
  show ?thesis
    using stored likert7_overall by simp
qed

end
